theory Spec2Isabelle
  imports Complex_Main
begin

section \<open>Python values, exceptions and the observable trace\<close>

text \<open>
  Exceptions of the Python source are values. \<open>Exception\<close> is the generic class raised by
  \<open>MatchingMeshesInterpolator.__init__\<close>, \<open>NameError\<close> is raised by \<open>qrSolve\<close>,
  the others are raised by the interpreter and by numpy.
\<close>

datatype error =
    Exception string
  | TypeError string
  | NameError string
  | ValueError string
  | ZeroDivisionError string
  | IndexError string
  | AttributeError string

text \<open>
  A Python number is an \<open>int\<close> or a \<open>float\<close>; floats are modelled by the reals.
  A value handed to a solver is a number, a numpy array or a tuple.
\<close>

datatype pynum = PyInt int | PyFloat real

datatype pyval = PyNum real | PyArray "real list" | PyTuple "pyval list"

text \<open>
  What a run does to the outside world (printing, calls into the two solvers, matrix
  products and linear solves) is recorded as a list of events, oldest first.
\<close>

datatype event =
    Print string
  | MatMult string
  | LinSolve string
  | ApplyNodalNormalHeatFluxes pyval real
  | FluidRun real real
  | SolidRun real real
  | FluidMeshUpdate nat
  | SolidToFluidMechaTransfer
  | FluidToSolidMechaTransfer
  | SolidToFluidThermalTransfer
  | FluidToSolidThermalTransfer
  | WriteRealTimeData
  | SolidBgsUpdate
  | FluidBgsUpdate
  | TracebackPrintExc error
  | PrintExitInfo
  | SolidExit
  | FluidExit
  | SolidDisplacementPredictor
  | TimeStepUpdate nat
  | SolidSetInitialDisplacements
  | FluidSetInitialMeshDeformation
  | FluidSetInitialInterfaceHeatFlux
  | FluidSetInitialInterfaceTemperature

section \<open>Interface fields\<close>

text \<open>
  Modelled from the spec: \<open>FlexInterfaceData\<close> (class of the compiled module \<open>ccupydo\<close>).
  A field over \<open>n\<close> interface nodes with \<open>dim\<close> components is the list of its \<open>dim\<close>
  columns, zero-initialised; its arithmetic (\<open>+\<close>, \<open>-\<close>, scalar product, \<open>dot\<close>,
  \<open>norm\<close>, \<open>sum\<close>) works column by column.
\<close>

type_synonym field = "real list list"

definition FlexInterfaceData :: "nat \<Rightarrow> nat \<Rightarrow> field" where
  "FlexInterfaceData n ncomp = replicate ncomp (replicate n 0)"

definition getDataArray :: "field \<Rightarrow> nat \<Rightarrow> real list" where
  "getDataArray f i = f ! i"

definition getDim :: "field \<Rightarrow> nat" where
  "getDim f = length f"

definition field_add :: "field \<Rightarrow> field \<Rightarrow> field" where
  "field_add a b = map2 (map2 (+)) a b"

definition field_sub :: "field \<Rightarrow> field \<Rightarrow> field" where
  "field_sub a b = map2 (map2 (-)) a b"

definition field_scale :: "real \<Rightarrow> field \<Rightarrow> field" where
  "field_scale c a = map (map ((*) c)) a"

definition column_dot :: "real list \<Rightarrow> real list \<Rightarrow> real" where
  "column_dot x y = sum_list (map2 (*) x y)"

definition field_dot :: "field \<Rightarrow> field \<Rightarrow> real list" where
  "field_dot a b = map2 column_dot a b"

definition field_norm :: "field \<Rightarrow> real list" where
  "field_norm a = map (\<lambda>x. sqrt (column_dot x x)) a"

section \<open>The manager\<close>

text \<open>
  Modelled from the spec: the \<open>Manager\<close> of \<open>ccupydo\<close>, as far as the coupler reads it:
  node counts, dimension, the activation flags, the computation type and the ranks that
  own the solid solver.
\<close>

record manager =
  getNumberOfFluidInterfaceNodes :: nat
  getNumberOfSolidInterfaceNodes :: nat
  getNumberOfLocalFluidInterfaceNodes :: nat
  getNumberOfLocalSolidInterfaceNodes :: nat
  getnDim :: nat
  withFsi :: bool
  withCht :: bool
  computationType :: string
  getSolidSolverProcessors :: "nat list"
  getSolidInterfaceProcessors :: "nat list"
  getSolidGlobalIndexRange :: "nat \<Rightarrow> nat \<times> nat"

text \<open>An MPI communicator gives the rank and the number of processes.\<close>

record mpi =
  Get_rank :: nat
  Get_size :: nat

section \<open>Interpolators\<close>

record interpolator =
  manager_ip :: manager
  nf :: nat
  ns :: nat
  nf_loc :: nat
  ns_loc :: nat
  nDim :: nat
  d :: nat
  chtTransferMethod :: "string option"
  heatTransferCoeff :: "pynum option"
  mpiComm_ip :: "mpi option"
  myid_ip :: nat
  mpiSize_ip :: nat
  solidInterfaceDisplacement :: "field option"
  fluidInterfaceDisplacement :: "field option"
  solidInterfaceLoads :: "field option"
  fluidInterfaceLoads :: "field option"
  solidInterfaceHeatFlux :: "field option"
  fluidInterfaceHeatFlux :: "field option"
  solidInterfaceTemperature :: "field option"
  fluidInterfaceTemperature :: "field option"
  fluidInterfaceNormalHeatFlux :: "field option"
  solidInterfaceNormalHeatFlux :: "field option"
  fluidInterfaceRobinTemperature :: "field option"
  solidInterfaceRobinTemperature :: "field option"

definition cht_methods :: "string list" where
  "cht_methods = [''TFFB'', ''FFTB'', ''hFTB'', ''hFFB'']"

text \<open>
  \<open>InterfaceInterpolator.__init__\<close>. The transfer method is \<open>None\<close> or a string. With CHT
  enabled, a method outside the four known ones is replaced by \<open>'TFFB'\<close> after a message;
  no branch of the constructor raises.
\<close>

definition InterfaceInterpolator_init ::
  "manager \<Rightarrow> mpi option \<Rightarrow> string option \<Rightarrow> pynum \<Rightarrow> error + (event list \<times> interpolator)" where
  "InterfaceInterpolator_init Manager mpiComm chtMethod coeff =
    (let log0 = [Print ''***************************** Initializing FSI interpolator *****************************''];
         (log1, method) =
           (if withCht Manager then
              (if chtMethod \<notin> set (map Some cht_methods)
               then ([Print ''CHT transfer method not specified or not recognized, using default TFFB''],
                     Some ''TFFB'')
               else ([], chtMethod))
            else ([], None));
         hcoeff = (if method \<in> {Some ''hFTB'', Some ''hFFB''} then Some coeff else None)
     in Inr (log0 @ log1,
        \<lparr> manager_ip = Manager,
          nf = getNumberOfFluidInterfaceNodes Manager,
          ns = getNumberOfSolidInterfaceNodes Manager,
          nf_loc = getNumberOfLocalFluidInterfaceNodes Manager,
          ns_loc = getNumberOfLocalSolidInterfaceNodes Manager,
          nDim = getnDim Manager,
          d = 0,
          chtTransferMethod = method,
          heatTransferCoeff = hcoeff,
          mpiComm_ip = mpiComm,
          myid_ip = (case mpiComm of Some c \<Rightarrow> Get_rank c | None \<Rightarrow> 0),
          mpiSize_ip = (case mpiComm of Some c \<Rightarrow> Get_size c | None \<Rightarrow> 1),
          solidInterfaceDisplacement = None,
          fluidInterfaceDisplacement = None,
          solidInterfaceLoads = None,
          fluidInterfaceLoads = None,
          solidInterfaceHeatFlux = None,
          fluidInterfaceHeatFlux = None,
          solidInterfaceTemperature = None,
          fluidInterfaceTemperature = None,
          fluidInterfaceNormalHeatFlux = None,
          solidInterfaceNormalHeatFlux = None,
          fluidInterfaceRobinTemperature = None,
          solidInterfaceRobinTemperature = None \<rparr>))"

text \<open>
  \<open>MatchingMeshesInterpolator.generateInterfaceData\<close>: the fields of the active physics.
  The matrices \<open>H\<close> and \<open>H_T\<close> are filled by the compiled module and are not part of the
  record.
\<close>

definition generateInterfaceData_matching :: "interpolator \<Rightarrow> interpolator" where
  "generateInterfaceData_matching ip =
    (let ip1 =
       (if withFsi (manager_ip ip) then
          ip\<lparr> solidInterfaceDisplacement := Some (FlexInterfaceData (ns ip) 3),
              fluidInterfaceDisplacement := Some (FlexInterfaceData (nf ip) 3),
              solidInterfaceLoads := Some (FlexInterfaceData (ns ip) 3),
              fluidInterfaceLoads := Some (FlexInterfaceData (nf ip) 3) \<rparr>
        else ip)
     in
       if withCht (manager_ip ip) then
         (if chtTransferMethod ip = Some ''TFFB'' then
            ip1\<lparr> solidInterfaceTemperature := Some (FlexInterfaceData (ns ip) 1),
                 fluidInterfaceTemperature := Some (FlexInterfaceData (nf ip) 1),
                 solidInterfaceHeatFlux := Some (FlexInterfaceData (ns ip) 3),
                 fluidInterfaceHeatFlux := Some (FlexInterfaceData (nf ip) 3) \<rparr>
          else if chtTransferMethod ip = Some ''FFTB'' then
            ip1\<lparr> solidInterfaceTemperature := Some (FlexInterfaceData (ns ip) 1),
                 fluidInterfaceTemperature := Some (FlexInterfaceData (nf ip) 1),
                 solidInterfaceHeatFlux := Some (FlexInterfaceData (ns ip) 3),
                 fluidInterfaceHeatFlux := Some (FlexInterfaceData (nf ip) 3),
                 fluidInterfaceNormalHeatFlux := Some (FlexInterfaceData (nf ip) 1),
                 solidInterfaceNormalHeatFlux := Some (FlexInterfaceData (ns ip) 1) \<rparr>
          else if chtTransferMethod ip = Some ''hFTB'' then
            ip1\<lparr> fluidInterfaceRobinTemperature := Some (FlexInterfaceData (nf ip) 1),
                 solidInterfaceRobinTemperature := Some (FlexInterfaceData (ns ip) 1),
                 solidInterfaceTemperature := Some (FlexInterfaceData (ns ip) 1),
                 fluidInterfaceTemperature := Some (FlexInterfaceData (nf ip) 1) \<rparr>
          else if chtTransferMethod ip = Some ''hFFB'' then
            ip1\<lparr> fluidInterfaceRobinTemperature := Some (FlexInterfaceData (nf ip) 1),
                 solidInterfaceRobinTemperature := Some (FlexInterfaceData (ns ip) 1),
                 solidInterfaceHeatFlux := Some (FlexInterfaceData (ns ip) 3),
                 fluidInterfaceHeatFlux := Some (FlexInterfaceData (nf ip) 3) \<rparr>
          else ip1)
       else ip1)"

text \<open>
  \<open>MatchingMeshesInterpolator.__init__\<close>: the base constructor, then the check of the
  node counts, then the interface data. The search and the mapping that follow the check
  run in the compiled module and leave the record as it is.
\<close>

definition MatchingMeshesInterpolator_init ::
  "manager \<Rightarrow> mpi option \<Rightarrow> string option \<Rightarrow> pynum \<Rightarrow> error + (event list \<times> interpolator)" where
  "MatchingMeshesInterpolator_init Manager mpiComm chtMethod coeff =
    (case InterfaceInterpolator_init Manager mpiComm chtMethod coeff of
       Inl e \<Rightarrow> Inl e
     | Inr (msgs, ip) \<Rightarrow>
         (let msgs1 = msgs @ [Print ''Setting matching meshes interpolator...''] in
          if nf ip \<noteq> ns ip then
            Inl (Exception ''Fluid and solid interface must have the same number of nodes for matching meshes ! '')
          else
            Inr (msgs1 @ [Print ''Building interpolation matrix...''],
                 generateInterfaceData_matching ip)))"

section \<open>Interface matrices and linear solvers\<close>

text \<open>
  Modelled from the spec: \<open>InterfaceMatrix.mult\<close> of \<open>ccupydo\<close>. A matrix is the list
  of its rows; applied to a field it gives, for each column of the field, the products of
  the rows with that column.
\<close>

type_synonym matrix = "real list list"

definition mat_mult :: "matrix \<Rightarrow> field \<Rightarrow> field" where
  "mat_mult M x = map (\<lambda>col. map (\<lambda>row. column_dot row col) M) x"

text \<open>
  Modelled from the spec: \<open>LinearSolver.solve(b, x)\<close> of \<open>ccupydo\<close> solves the system of
  its matrix for the right-hand side \<open>b\<close> and writes the solution into the field \<open>x\<close>
  handed to it. A solver is the function from \<open>b\<close> and the field handed over to the
  field written.
\<close>

type_synonym linear_solver = "field \<Rightarrow> field \<Rightarrow> field"

text \<open>
  \<open>ConservativeInterpolator.interpolateFluidToSolid\<close> and \<open>interpolateSolidToFluid\<close>.
  The matrices and solvers are the attributes \<open>B_T\<close>, \<open>SolverA_T\<close>, \<open>SolverA\<close> and \<open>B\<close>
  of the object; the result is the list of operator calls, in order, and the content
  written into the output field.
\<close>

definition ConservativeInterpolator_interpolateFluidToSolid ::
  "'a interpolator_scheme \<Rightarrow> matrix \<Rightarrow> linear_solver \<Rightarrow> field \<Rightarrow> field \<Rightarrow> event list \<times> field" where
  "ConservativeInterpolator_interpolateFluidToSolid ip B_T SolverA_T fluidInterfaceData solidInterfaceData =
    (let gamma_array = mat_mult B_T fluidInterfaceData
     in ([MatMult ''B_T'', LinSolve ''A_T''], SolverA_T gamma_array solidInterfaceData))"

definition ConservativeInterpolator_interpolateSolidToFluid ::
  "'a interpolator_scheme \<Rightarrow> linear_solver \<Rightarrow> matrix \<Rightarrow> field \<Rightarrow> event list \<times> field" where
  "ConservativeInterpolator_interpolateSolidToFluid ip SolverA B solidInterfaceData =
    (let ncomp = getDim solidInterfaceData;
         gamma_array = FlexInterfaceData (ns ip + d ip) ncomp;
         gamma_array = SolverA solidInterfaceData gamma_array
     in ([LinSolve ''A'', MatMult ''B''], mat_mult B gamma_array))"

text \<open>
  \<open>ConsistentInterpolator.interpolateFluidToSolid\<close> and \<open>interpolateSolidToFluid\<close>, with
  the attributes \<open>SolverC\<close>, \<open>D\<close>, \<open>SolverA\<close> and \<open>B\<close>.
\<close>

definition ConsistentInterpolator_interpolateFluidToSolid ::
  "'a interpolator_scheme \<Rightarrow> linear_solver \<Rightarrow> matrix \<Rightarrow> field \<Rightarrow> event list \<times> field" where
  "ConsistentInterpolator_interpolateFluidToSolid ip SolverC D fluidInterfaceData =
    (let ncomp = getDim fluidInterfaceData;
         gamma_array = FlexInterfaceData (nf ip + d ip) ncomp;
         gamma_array = SolverC fluidInterfaceData gamma_array
     in ([LinSolve ''C'', MatMult ''D''], mat_mult D gamma_array))"

definition ConsistentInterpolator_interpolateSolidToFluid ::
  "'a interpolator_scheme \<Rightarrow> linear_solver \<Rightarrow> matrix \<Rightarrow> field \<Rightarrow> event list \<times> field" where
  "ConsistentInterpolator_interpolateSolidToFluid ip SolverA B solidInterfaceData =
    (let ncomp = getDim solidInterfaceData;
         gamma_array = FlexInterfaceData (ns ip + d ip) ncomp;
         gamma_array = SolverA solidInterfaceData gamma_array
     in ([LinSolve ''A'', MatMult ''B''], mat_mult B gamma_array))"

section \<open>The Robin heat flux handed to the solid solver\<close>

text \<open>
  The difference of two numpy arrays: arrays of one length are subtracted element by
  element, an array of length one is broadcast, other shapes raise.
\<close>

definition np_sub :: "real list \<Rightarrow> real list \<Rightarrow> error + real list" where
  "np_sub xs ys =
    (if length xs = length ys then Inr (map2 (-) xs ys)
     else if length ys = 1 then Inr (map (\<lambda>x. x - hd ys) xs)
     else if length xs = 1 then Inr (map (\<lambda>y. hd xs - y) ys)
     else Inl (ValueError ''operands could not be broadcast together''))"

text \<open>
  The product of the coefficient with an array scales the array. The product with a
  tuple is Python's sequence repetition: it needs an \<open>int\<close>, and raises for a \<open>float\<close>.
\<close>

definition times_array :: "pynum option \<Rightarrow> real list \<Rightarrow> error + real list" where
  "times_array c xs =
    (case c of
       None \<Rightarrow> Inl (TypeError ''unsupported operand type(s) for *: NoneType and ndarray'')
     | Some (PyInt n) \<Rightarrow> Inr (map (\<lambda>x. of_int n * x) xs)
     | Some (PyFloat a) \<Rightarrow> Inr (map (\<lambda>x. a * x) xs))"

definition times_tuple :: "pynum option \<Rightarrow> pyval list \<Rightarrow> error + pyval list" where
  "times_tuple c xs =
    (case c of
       None \<Rightarrow> Inl (TypeError ''unsupported operand type(s) for *: NoneType and tuple'')
     | Some (PyInt n) \<Rightarrow> Inr (concat (replicate (nat n) xs))
     | Some (PyFloat a) \<Rightarrow> Inl (TypeError ''cannot multiply sequence by non-int of type float''))"

text \<open>
  \<open>redistributeDataToSolidSolver\<close>, seen from the calling rank: of each column gathered
  on the root, the rank gets back the \<open>ns_loc\<close> values that start at the first global
  index it owns.
\<close>

definition redistributeDataToSolidSolver :: "'a interpolator_scheme \<Rightarrow> field \<Rightarrow> real list list" where
  "redistributeDataToSolidSolver ip solidInterfaceData =
    map (\<lambda>col. take (ns_loc ip) (drop (fst (getSolidGlobalIndexRange (manager_ip ip) (myid_ip ip))) col))
      solidInterfaceData"

text \<open>
  \<open>setRobinHeatFluxToSolidSolver\<close>. The nodal temperatures are what
  \<open>SolidSolver.getNodalTemperatures()\<close> returns. With MPI the flux is
  \<open>heatTransferCoeff * (T - T_robin)\<close>; without MPI the source multiplies the coefficient
  with the tuple \<open>(T - T_robin, time)\<close>.
\<close>

definition setRobinHeatFluxToSolidSolver ::
  "'a interpolator_scheme \<Rightarrow> real list \<Rightarrow> real \<Rightarrow> error + event list" where
  "setRobinHeatFluxToSolidSolver ip localSolidInterfaceTemperature t =
    (case solidInterfaceRobinTemperature ip of
       None \<Rightarrow> Inl (AttributeError ''NoneType object has no attribute getDataArray'')
     | Some robin \<Rightarrow>
        (case mpiComm_ip ip of
           Some comm \<Rightarrow>
             (if myid_ip ip \<in> set (getSolidInterfaceProcessors (manager_ip ip)) then
                (case redistributeDataToSolidSolver ip robin of
                   [] \<Rightarrow> Inl (IndexError ''list index out of range'')
                 | localRobin # _ \<Rightarrow>
                    (case np_sub localSolidInterfaceTemperature localRobin of
                       Inl e \<Rightarrow> Inl e
                     | Inr diff \<Rightarrow>
                        (case times_array (heatTransferCoeff ip) diff of
                           Inl e \<Rightarrow> Inl e
                         | Inr flux \<Rightarrow> Inr [ApplyNodalNormalHeatFluxes (PyArray flux) t])))
              else Inr [])
         | None \<Rightarrow>
             (case robin of
                [] \<Rightarrow> Inl (IndexError ''index out of range'')
              | robin0 # _ \<Rightarrow>
                 (case np_sub localSolidInterfaceTemperature robin0 of
                    Inl e \<Rightarrow> Inl e
                  | Inr diff \<Rightarrow>
                     (case times_tuple (heatTransferCoeff ip) [PyArray diff, PyNum t] of
                        Inl e \<Rightarrow> Inl e
                      | Inr flux \<Rightarrow> Inr [ApplyNodalNormalHeatFluxes (PyTuple flux) t])))))"

section \<open>Coupling algorithms: state and collaborators\<close>

text \<open>
  A method either returns, or raises an exception; in both cases the object is left in
  some state.
\<close>

datatype 's outcome = Returned 's | Raised error 's

definition and_then :: "'s outcome \<Rightarrow> ('s \<Rightarrow> 's outcome) \<Rightarrow> 's outcome" where
  "and_then r f = (case r of Returned s \<Rightarrow> f s | Raised e s \<Rightarrow> Raised e s)"

text \<open>
  The classes \<open>AlgorithmBGSStaticRelax\<close>, \<open>AlgorithmBGSAitkenRelax\<close>, \<open>AlgorithmIQN_ILS\<close>
  and \<open>ThermalAlgorithmBGS\<close> extend \<open>Algorithm\<close>. An object is a record with the
  attributes of all of them and the class it was built as, which selects the overriding
  methods \<open>setOmega\<close> and \<open>fsiCoupling\<close>.
\<close>

datatype algo_kind = BGSStaticRelax | BGSAitkenRelax | IQN_ILS | ThermalBGS

text \<open>
  Modelled from the spec: the convergence criterion and the two solvers are external
  collaborators. What they answer during a run is given by functions of the time
  iteration and the sub-iteration in which they are asked:
  \<open>FluidSolver_run\<close> is the exception \<open>FluidSolver.run\<close> raises, if any;
  \<open>predictedDisplacement\<close>, \<open>predictedHF\<close> and \<open>predictedTemp\<close> are the assembled fields
  read from the solid solver after its run; \<open>getNodalTemperatures\<close> is the array the solid
  solver returns; \<open>interpolatedRobinTemperature\<close> is the Robin temperature of the fluid
  solver interpolated on the solid mesh; \<open>qrNumerics\<close> is the result \<open>(c, W)\<close> of the QR
  filtering and triangular solve for a filter name, and \<open>lstsq\<close> the least-squares
  solution of numpy. \<open>displacementFromSolidSolver\<close> takes the displacement field of the
  interface to the field in which every process has written the displacements of its
  solid nodes (\<open>getDisplacementFromSolidSolver\<close>). \<open>float_div\<close> and \<open>float_sub\<close> are the
  quotient and the difference as Python computes them for the count of time steps, where
  a rounded quotient changes the count (\<open>int(0.3/0.1 - 1)\<close> is 1).
\<close>

record collaborators =
  isVerified :: "real \<Rightarrow> real \<Rightarrow> bool"
  isVerified1 :: "real \<Rightarrow> bool"
  criterion_update :: "field \<Rightarrow> real"
  criterion_updateHeatFlux :: "field option \<Rightarrow> real"
  FluidSolver_run :: "nat \<Rightarrow> nat \<Rightarrow> error option"
  predictedDisplacement :: "nat \<Rightarrow> nat \<Rightarrow> field"
  predictedHF :: "nat \<Rightarrow> nat \<Rightarrow> field"
  predictedTemp :: "nat \<Rightarrow> nat \<Rightarrow> field"
  getNodalTemperatures :: "nat \<Rightarrow> nat \<Rightarrow> real list"
  interpolatedRobinTemperature :: "nat \<Rightarrow> nat \<Rightarrow> field"
  getNodalVelocity :: "nat \<Rightarrow> field"
  getNodalVelocityNm1 :: "nat \<Rightarrow> field"
  qrNumerics :: "string \<Rightarrow> matrix \<Rightarrow> matrix \<Rightarrow> real list \<Rightarrow> real list \<times> matrix"
  lstsq :: "matrix \<Rightarrow> real list \<Rightarrow> real list"
  displacementFromSolidSolver :: "field \<Rightarrow> field"
  float_div :: "real \<Rightarrow> real \<Rightarrow> real"
  float_sub :: "real \<Rightarrow> real \<Rightarrow> real"

text \<open>
  The attributes. \<open>trace\<close> is not an attribute: it collects the events of the run.
  \<open>solidHasRun\<close> is the local variable of that name of the BGS loops.
\<close>

record algorithm =
  kind :: algo_kind
  manager :: manager
  interfaceInterpolator :: interpolator
  myid :: nat
  nbFSIIterMax :: int
  deltaT :: real
  totTime :: real
  timeIterTreshold :: int
  writeInFSIloop :: bool
  time :: real
  timeIter :: nat
  FSIIter :: nat
  errValue :: real
  errValue_CHT :: real
  FSIConv :: bool
  totNbOfFSIIt :: nat
  alpha_0 :: real
  alpha_1 :: real
  solidInterfaceResidual :: field
  solidHeatFluxResidual :: "field option"
  solidTemperatureResidual :: "field option"
  omegaMax :: real
  omegaMin :: real
  omega :: real
  solidInterfaceResidualkM1 :: field
  aitkenCrit :: string
  nbTimeToKeep :: int
  computeTangentMatrixBasedOnFirstIt :: bool
  useQR :: bool
  tollQR :: real
  qrFilter :: string
  maxNbOfItReached :: bool
  convergenceReachedInOneIt :: bool
  V :: "matrix list"
  W :: "matrix list"
  trace :: "event list"
  solidHasRun :: bool

definition emit :: "event list \<Rightarrow> algorithm \<Rightarrow> algorithm" where
  "emit evs s = s\<lparr>trace := trace s @ evs\<rparr>"

text \<open>
  \<open>Algorithm.__init__\<close> and the constructors of the subclasses. Attributes a class does
  not have are given the values they never leave.
\<close>

definition Algorithm_init ::
  "manager \<Rightarrow> interpolator \<Rightarrow> int \<Rightarrow> real \<Rightarrow> real \<Rightarrow> int \<Rightarrow> mpi option \<Rightarrow> algorithm" where
  "Algorithm_init Manager ip nbIterMax dt tTot treshold mpiComm =
    \<lparr> kind = BGSStaticRelax,
      manager = Manager,
      interfaceInterpolator = ip,
      myid = (case mpiComm of Some c \<Rightarrow> Get_rank c | None \<Rightarrow> 0),
      nbFSIIterMax = nbIterMax,
      deltaT = dt,
      totTime = tTot,
      timeIterTreshold = treshold,
      writeInFSIloop = False,
      time = 0,
      timeIter = 0,
      FSIIter = 0,
      errValue = 0,
      errValue_CHT = 0,
      FSIConv = False,
      totNbOfFSIIt = 0,
      alpha_0 = 1,
      alpha_1 = 1 / 2,
      solidInterfaceResidual = FlexInterfaceData (ns ip + d ip) 3,
      solidHeatFluxResidual =
        (if withCht Manager then Some (FlexInterfaceData (ns ip + d ip) 3) else None),
      solidTemperatureResidual =
        (if withCht Manager then Some (FlexInterfaceData (ns ip + d ip) 1) else None),
      omegaMax = 0,
      omegaMin = 0,
      omega = 0,
      solidInterfaceResidualkM1 = [],
      aitkenCrit = [],
      nbTimeToKeep = 0,
      computeTangentMatrixBasedOnFirstIt = False,
      useQR = False,
      tollQR = 0,
      qrFilter = [],
      maxNbOfItReached = False,
      convergenceReachedInOneIt = False,
      V = [],
      W = [],
      trace = [Print ''***************************** Initializing FSI algorithm *****************************''],
      solidHasRun = False \<rparr>"

definition AlgorithmBGSStaticRelax_init ::
  "manager \<Rightarrow> interpolator \<Rightarrow> int \<Rightarrow> real \<Rightarrow> real \<Rightarrow> int \<Rightarrow> real \<Rightarrow> mpi option \<Rightarrow> algorithm" where
  "AlgorithmBGSStaticRelax_init Manager ip nbIterMax dt tTot treshold omMax mpiComm =
    (Algorithm_init Manager ip nbIterMax dt tTot treshold mpiComm)
      \<lparr> kind := BGSStaticRelax, omegaMax := omMax, omegaMin := 1 / 10 ^ 12, omega := omMax \<rparr>"

definition AlgorithmBGSAitkenRelax_init ::
  "manager \<Rightarrow> interpolator \<Rightarrow> int \<Rightarrow> real \<Rightarrow> real \<Rightarrow> int \<Rightarrow> real \<Rightarrow> mpi option \<Rightarrow> algorithm" where
  "AlgorithmBGSAitkenRelax_init Manager ip nbIterMax dt tTot treshold omMax mpiComm =
    (AlgorithmBGSStaticRelax_init Manager ip nbIterMax dt tTot treshold omMax mpiComm)
      \<lparr> kind := BGSAitkenRelax,
        solidInterfaceResidualkM1 := FlexInterfaceData (ns ip) 3,
        aitkenCrit := ''max'' \<rparr>"

definition AlgorithmIQN_ILS_init ::
  "manager \<Rightarrow> interpolator \<Rightarrow> int \<Rightarrow> real \<Rightarrow> real \<Rightarrow> int \<Rightarrow> real \<Rightarrow> int \<Rightarrow> bool \<Rightarrow> mpi option
     \<Rightarrow> algorithm" where
  "AlgorithmIQN_ILS_init Manager ip nbIterMax dt tTot treshold omMax nbKeep firstIt mpiComm =
    (AlgorithmBGSAitkenRelax_init Manager ip nbIterMax dt tTot treshold omMax mpiComm)
      \<lparr> kind := IQN_ILS,
        nbTimeToKeep := nbKeep,
        computeTangentMatrixBasedOnFirstIt := firstIt,
        useQR := True,
        tollQR := 1 / 10,
        qrFilter := ''Haelterman'',
        maxNbOfItReached := False,
        convergenceReachedInOneIt := False,
        V := [],
        W := [] \<rparr>"

definition ThermalAlgorithmBGS_init ::
  "manager \<Rightarrow> interpolator \<Rightarrow> int \<Rightarrow> real \<Rightarrow> real \<Rightarrow> int \<Rightarrow> mpi option \<Rightarrow> algorithm" where
  "ThermalAlgorithmBGS_init Manager ip nbIterMax dt tTot treshold mpiComm =
    (AlgorithmBGSStaticRelax_init Manager ip nbIterMax dt tTot treshold 1 mpiComm)
      \<lparr> kind := ThermalBGS \<rparr>"

section \<open>Residuals and relaxation\<close>

text \<open>
  \<open>a += b\<close> and \<open>a - b\<close> on attributes that hold a field or \<open>None\<close>: with \<open>None\<close> on
  either side Python raises.
\<close>

definition field_iadd :: "field option \<Rightarrow> field option \<Rightarrow> error + field" where
  "field_iadd a b =
    (case a of
       None \<Rightarrow> Inl (TypeError ''unsupported operand type(s) for +='')
     | Some x \<Rightarrow>
        (case b of
           None \<Rightarrow> Inl (TypeError ''unsupported operand type(s) for +='')
         | Some y \<Rightarrow> Inr (field_add x y)))"

definition field_osub :: "field \<Rightarrow> field option \<Rightarrow> error + field" where
  "field_osub a b =
    (case b of
       None \<Rightarrow> Inl (TypeError ''unsupported operand type(s) for -'')
     | Some y \<Rightarrow> Inr (field_sub a y))"

text \<open>\<open>AlgorithmBGSStaticRelax.setOmega\<close>.\<close>

definition setOmega_static :: "algorithm \<Rightarrow> algorithm" where
  "setOmega_static s = s\<lparr>omega := omegaMax s\<rparr>"

text \<open>
  \<open>AlgorithmBGSAitkenRelax.setOmega\<close>. \<open>dot\<close> and \<open>norm\<close> give one number for each of the
  three components, which the source adds up.
\<close>

definition setOmega_Aitken :: "algorithm \<Rightarrow> algorithm" where
  "setOmega_Aitken s =
    (let s1 =
       (if FSIIter s \<noteq> 0 then
          (let deltaInterfaceResidual = field_sub (solidInterfaceResidual s) (solidInterfaceResidualkM1 s);
               prodScalRes = sum_list (field_dot deltaInterfaceResidual (solidInterfaceResidualkM1 s));
               deltaResNormSquare = sum_list (map (\<lambda>n. n ^ 2) (field_norm deltaInterfaceResidual))
           in if deltaResNormSquare \<noteq> 0
              then s\<lparr>omega := omega s * (- prodScalRes / deltaResNormSquare)\<rparr>
              else s\<lparr>omega := omegaMin s\<rparr>)
        else
          (if aitkenCrit s = ''max''
           then s\<lparr>omega := max (omegaMax s) (omega s)\<rparr>
           else s\<lparr>omega := min (omegaMax s) (omega s)\<rparr>));
         s2 = s1\<lparr>omega := min (omega s1) 1\<rparr>;
         s3 = s2\<lparr>omega := max (omega s2) (omegaMin s2)\<rparr>
     in s3\<lparr>solidInterfaceResidualkM1 := solidInterfaceResidual s3\<rparr>)"

text \<open>\<open>self.setOmega()\<close>: the method of the class of the object.\<close>

definition setOmega :: "algorithm \<Rightarrow> algorithm" where
  "setOmega s =
    (case kind s of
       BGSStaticRelax \<Rightarrow> setOmega_static s
     | ThermalBGS \<Rightarrow> setOmega_static s
     | BGSAitkenRelax \<Rightarrow> setOmega_Aitken s
     | IQN_ILS \<Rightarrow> setOmega_Aitken s)"

text \<open>\<open>relaxSolidPosition\<close>: the displacement of the solid interface moves by \<open>omega\<close> times the residual.\<close>

definition relaxSolidPosition :: "algorithm \<Rightarrow> algorithm outcome" where
  "relaxSolidPosition s =
    (let s1 = setOmega s;
         ip = interfaceInterpolator s1
     in case field_iadd (solidInterfaceDisplacement ip)
               (Some (field_scale (omega s1) (solidInterfaceResidual s1))) of
          Inl e \<Rightarrow> Raised e s1
        | Inr f \<Rightarrow> Returned (s1\<lparr>interfaceInterpolator := ip\<lparr>solidInterfaceDisplacement := Some f\<rparr>\<rparr>))"

text \<open>\<open>relaxCHT\<close>: the thermal field of the transfer method moves by the residual.\<close>

definition relaxCHT :: "algorithm \<Rightarrow> algorithm outcome" where
  "relaxCHT s =
    (let ip = interfaceInterpolator s in
     if chtTransferMethod ip = Some ''hFFB'' \<or> chtTransferMethod ip = Some ''TFFB'' then
       (case field_iadd (solidInterfaceHeatFlux ip) (solidHeatFluxResidual s) of
          Inl e \<Rightarrow> Raised e s
        | Inr f \<Rightarrow> Returned (s\<lparr>interfaceInterpolator := ip\<lparr>solidInterfaceHeatFlux := Some f\<rparr>\<rparr>))
     else if chtTransferMethod ip = Some ''hFTB'' \<or> chtTransferMethod ip = Some ''FFTB'' then
       (case field_iadd (solidInterfaceTemperature ip) (solidTemperatureResidual s) of
          Inl e \<Rightarrow> Raised e s
        | Inr f \<Rightarrow> Returned (s\<lparr>interfaceInterpolator := ip\<lparr>solidInterfaceTemperature := Some f\<rparr>\<rparr>))
     else Returned s)"

text \<open>
  \<open>computeSolidInterfaceResidual\<close>: the displacement predicted by the solid solver minus
  the displacement of the interface.
\<close>

definition computeSolidInterfaceResidual :: "collaborators \<Rightarrow> algorithm \<Rightarrow> algorithm outcome" where
  "computeSolidInterfaceResidual c s =
    (case field_osub (predictedDisplacement c (timeIter s) (FSIIter s))
            (solidInterfaceDisplacement (interfaceInterpolator s)) of
       Inl e \<Rightarrow> Raised e s
     | Inr r \<Rightarrow> Returned (s\<lparr>solidInterfaceResidual := r\<rparr>))"

text \<open>
  \<open>computeSolidInterfaceResidual_CHT\<close>: the state and the residual returned (\<open>None\<close> for
  no transfer method).
\<close>

definition computeSolidInterfaceResidual_CHT ::
  "collaborators \<Rightarrow> algorithm \<Rightarrow> (algorithm \<times> field option) outcome" where
  "computeSolidInterfaceResidual_CHT c s =
    (let ip = interfaceInterpolator s in
     if chtTransferMethod ip = Some ''hFFB'' \<or> chtTransferMethod ip = Some ''TFFB'' then
       (if solidHeatFluxResidual s = None
        then Raised (AttributeError ''NoneType object has no attribute set'') (s, None)
        else
          (case field_osub (predictedHF c (timeIter s) (FSIIter s)) (solidInterfaceHeatFlux ip) of
             Inl e \<Rightarrow> Raised e (s, None)
           | Inr r \<Rightarrow> Returned (s\<lparr>solidHeatFluxResidual := Some r\<rparr>, Some r)))
     else if chtTransferMethod ip = Some ''hFTB'' \<or> chtTransferMethod ip = Some ''FFTB'' then
       (if solidTemperatureResidual s = None
        then Raised (AttributeError ''NoneType object has no attribute set'') (s, None)
        else
          (case field_osub (predictedTemp c (timeIter s) (FSIIter s)) (solidInterfaceTemperature ip) of
             Inl e \<Rightarrow> Raised e (s, None)
           | Inr r \<Rightarrow> Returned (s\<lparr>solidTemperatureResidual := Some r\<rparr>, Some r)))
     else Returned (s, None))"

section \<open>Block Gauss-Seidel sub-iterations\<close>

text \<open>The cap on the sub-iterations that \<open>fsiCoupling\<close> computes on entry.\<close>

definition nbFSIIter_of :: "algorithm \<Rightarrow> int" where
  "nbFSIIter_of s = (if int (timeIter s) > timeIterTreshold s then nbFSIIterMax s else 1)"

text \<open>
  The transfers between the solvers run in the interpolator and the solvers; they are
  events, except for the Robin heat flux, whose arithmetic is in the source.
\<close>

definition solidToFluidThermalTransfer :: "algorithm \<Rightarrow> algorithm" where
  "solidToFluidThermalTransfer s =
    (let m = chtTransferMethod (interfaceInterpolator s) in
     if m = Some ''TFFB'' \<or> m = Some ''hFFB'' then emit [SolidToFluidThermalTransfer] s
     else if m = Some ''FFTB'' \<or> m = Some ''hFTB'' then emit [SolidToFluidThermalTransfer] s
     else s)"

definition fluidToSolidThermalTransfer :: "collaborators \<Rightarrow> algorithm \<Rightarrow> algorithm outcome" where
  "fluidToSolidThermalTransfer c s =
    (let ip = interfaceInterpolator s in
     if chtTransferMethod ip = Some ''TFFB'' then Returned (emit [FluidToSolidThermalTransfer] s)
     else if chtTransferMethod ip = Some ''FFTB'' then Returned (emit [FluidToSolidThermalTransfer] s)
     else if chtTransferMethod ip = Some ''hFFB'' \<or> chtTransferMethod ip = Some ''hFTB'' then
       (let ip1 = ip\<lparr>solidInterfaceRobinTemperature :=
                      Some (interpolatedRobinTemperature c (timeIter s) (FSIIter s))\<rparr>;
            s1 = emit [FluidToSolidThermalTransfer] (s\<lparr>interfaceInterpolator := ip1\<rparr>)
        in case setRobinHeatFluxToSolidSolver ip1 (getNodalTemperatures c (timeIter s) (FSIIter s)) (time s) of
             Inl e \<Rightarrow> Raised e s1
           | Inr evs \<Rightarrow> Returned (emit evs s1))
     else Returned s)"

definition writeRealTimeData :: "algorithm \<Rightarrow> algorithm" where
  "writeRealTimeData s = (if myid s = 0 then emit [WriteRealTimeData] s else s)"

definition FluidSolver_run_step :: "collaborators \<Rightarrow> algorithm \<Rightarrow> algorithm outcome" where
  "FluidSolver_run_step c s =
    (case FluidSolver_run c (timeIter s) (FSIIter s) of
       Some e \<Rightarrow> Raised e s
     | None \<Rightarrow> Returned (emit [FluidRun (time s - deltaT s) (time s)] s))"

definition SolidSolver_run_step :: "algorithm \<Rightarrow> algorithm" where
  "SolidSolver_run_step s =
    (if myid s \<in> set (getSolidSolverProcessors (manager s))
     then emit [SolidRun (time s - deltaT s) (time s)] s else s)"

text \<open>The thermal residual and its error value.\<close>

definition update_CHT_error :: "collaborators \<Rightarrow> algorithm \<Rightarrow> algorithm outcome" where
  "update_CHT_error c s =
    (case computeSolidInterfaceResidual_CHT c s of
       Raised e (s1, r) \<Rightarrow> Raised e s1
     | Returned (s1, res_CHT) \<Rightarrow> Returned (s1\<lparr>errValue_CHT := criterion_updateHeatFlux c res_CHT\<rparr>))"

text \<open>
  The body of the loop of \<open>AlgorithmBGSStaticRelax.fsiCoupling\<close>, in three parts: up to
  the fluid solver, the part guarded by \<open>timeIter > timeIterTreshold\<close>, and the end.
\<close>

definition BGS_fluid_part :: "collaborators \<Rightarrow> algorithm \<Rightarrow> algorithm outcome" where
  "BGS_fluid_part c s =
    (let s1 = emit [SolidToFluidMechaTransfer, FluidMeshUpdate (timeIter s)] s;
         s2 = (if withCht (manager s1) \<and> solidHasRun s1 then solidToFluidThermalTransfer s1 else s1)
     in FluidSolver_run_step c s2)"

definition BGS_solid_part :: "collaborators \<Rightarrow> algorithm \<Rightarrow> algorithm outcome" where
  "BGS_solid_part c s =
    and_then
      (if withCht (manager s)
       then fluidToSolidThermalTransfer c (emit [FluidToSolidMechaTransfer] s)
       else Returned (emit [FluidToSolidMechaTransfer] s))
      (\<lambda>s2. and_then (computeSolidInterfaceResidual c ((SolidSolver_run_step s2)\<lparr>solidHasRun := True\<rparr>))
      (\<lambda>s4. and_then
               (if withCht (manager s4)
                then update_CHT_error c (s4\<lparr>errValue := criterion_update c (solidInterfaceResidual s4)\<rparr>)
                else Returned (s4\<lparr>errValue := criterion_update c (solidInterfaceResidual s4)\<rparr>))
      (\<lambda>s7. and_then
               (relaxSolidPosition (s7\<lparr>FSIConv := isVerified c (errValue s7) (errValue_CHT s7)\<rparr>))
      (\<lambda>s9. if withCht (manager s9) then relaxCHT s9 else Returned s9))))"

definition BGS_finish :: "algorithm \<Rightarrow> algorithm" where
  "BGS_finish s =
    (let s1 = (if writeInFSIloop s then writeRealTimeData s else s);
         s2 = s1\<lparr>FSIIter := FSIIter s1 + 1\<rparr>;
         s3 = (if computationType (manager s2) \<noteq> ''unsteady''
               then s2\<lparr>time := time s2 + deltaT s2\<rparr> else s2)
     in emit ((if myid s3 \<in> set (getSolidSolverProcessors (manager s3)) then [SolidBgsUpdate] else [])
              @ [FluidBgsUpdate]) s3)"

definition BGS_body :: "collaborators \<Rightarrow> algorithm \<Rightarrow> algorithm outcome" where
  "BGS_body c s =
    and_then (BGS_fluid_part c s)
      (\<lambda>s3. and_then
               (if int (timeIter s3) > timeIterTreshold s3 then BGS_solid_part c s3 else Returned s3)
               (\<lambda>s4. Returned (BGS_finish s4)))"

text \<open>
  The attributes no sub-iteration changes before its last statements: the class, the
  configuration, the counters of the time loop and the history of IQN-ILS.
\<close>

definition ctl :: "algorithm \<Rightarrow>
    (algo_kind \<times> manager \<times> nat \<times> int \<times> int \<times> nat \<times> nat) \<times>
    (int \<times> matrix list \<times> matrix list \<times> bool \<times> bool) \<times>
    (real \<times> real \<times> bool \<times> string \<times> bool \<times> bool \<times> nat \<times> real)" where
  "ctl s =
    ((kind s, manager s, myid s, nbFSIIterMax s, timeIterTreshold s, timeIter s, FSIIter s),
     (nbTimeToKeep s, V s, W s, maxNbOfItReached s, convergenceReachedInOneIt s),
     (deltaT s, totTime s, writeInFSIloop s, qrFilter s, useQR s,
      computeTangentMatrixBasedOnFirstIt s, totNbOfFSIIt s, omegaMin s))"

lemma and_then_Returned:
  "and_then r f = Returned s' \<Longrightarrow> \<exists>s1. r = Returned s1 \<and> f s1 = Returned s'"
  by (cases r) (simp_all add: and_then_def)

lemma ctl_upd_simps [simp]:
  "ctl (s\<lparr>solidHasRun := b\<rparr>) = ctl s"
  "ctl (s\<lparr>errValue := x\<rparr>) = ctl s"
  "ctl (s\<lparr>errValue_CHT := x\<rparr>) = ctl s"
  "ctl (s\<lparr>FSIConv := b\<rparr>) = ctl s"
  "ctl (s\<lparr>trace := evs\<rparr>) = ctl s"
  "ctl (s\<lparr>omega := x\<rparr>) = ctl s"
  "ctl (s\<lparr>solidInterfaceResidualkM1 := f\<rparr>) = ctl s"
  "ctl (s\<lparr>solidInterfaceResidual := f\<rparr>) = ctl s"
  "ctl (s\<lparr>solidHeatFluxResidual := fo\<rparr>) = ctl s"
  "ctl (s\<lparr>solidTemperatureResidual := fo\<rparr>) = ctl s"
  "ctl (s\<lparr>interfaceInterpolator := ip\<rparr>) = ctl s"
  "ctl (s\<lparr>time := x\<rparr>) = ctl s"
  by (simp_all add: ctl_def)

lemma ctl_emit [simp]: "ctl (emit evs s) = ctl s"
  by (simp add: emit_def)

lemma ctl_setOmega_static [simp]: "ctl (setOmega_static s) = ctl s"
  by (simp add: setOmega_static_def)

lemma ctl_setOmega_Aitken [simp]: "ctl (setOmega_Aitken s) = ctl s"
  by (simp add: setOmega_Aitken_def Let_def)

lemma ctl_setOmega [simp]: "ctl (setOmega s) = ctl s"
  by (simp add: setOmega_def split: algo_kind.splits)

lemma ctl_relaxSolidPosition: "relaxSolidPosition s = Returned s' \<Longrightarrow> ctl s' = ctl s"
  by (auto simp: relaxSolidPosition_def Let_def split: sum.splits)

lemma ctl_relaxCHT: "relaxCHT s = Returned s' \<Longrightarrow> ctl s' = ctl s"
  by (auto simp: relaxCHT_def Let_def split: sum.splits if_splits)

lemma ctl_computeSolidInterfaceResidual:
  "computeSolidInterfaceResidual c s = Returned s' \<Longrightarrow> ctl s' = ctl s"
  by (auto simp: computeSolidInterfaceResidual_def split: sum.splits)

lemma ctl_computeSolidInterfaceResidual_CHT:
  "computeSolidInterfaceResidual_CHT c s = Returned (s', r) \<Longrightarrow> ctl s' = ctl s"
  by (auto simp: computeSolidInterfaceResidual_CHT_def Let_def split: sum.splits if_splits)

lemma ctl_update_CHT_error: "update_CHT_error c s = Returned s' \<Longrightarrow> ctl s' = ctl s"
  by (auto simp: update_CHT_error_def dest: ctl_computeSolidInterfaceResidual_CHT
      split: outcome.splits prod.splits)

lemma ctl_solidToFluidThermalTransfer [simp]: "ctl (solidToFluidThermalTransfer s) = ctl s"
  by (simp add: solidToFluidThermalTransfer_def Let_def)

lemma ctl_fluidToSolidThermalTransfer:
  "fluidToSolidThermalTransfer c s = Returned s' \<Longrightarrow> ctl s' = ctl s"
  by (auto simp: fluidToSolidThermalTransfer_def Let_def split: sum.splits if_splits)

lemma ctl_FluidSolver_run_step: "FluidSolver_run_step c s = Returned s' \<Longrightarrow> ctl s' = ctl s"
  by (auto simp: FluidSolver_run_step_def split: option.splits)

lemma ctl_SolidSolver_run_step [simp]: "ctl (SolidSolver_run_step s) = ctl s"
  by (simp add: SolidSolver_run_step_def)

lemma ctl_BGS_fluid_part: "BGS_fluid_part c s = Returned s' \<Longrightarrow> ctl s' = ctl s"
  by (auto simp: BGS_fluid_part_def Let_def dest!: ctl_FluidSolver_run_step split: if_splits)

lemma ctl_BGS_solid_part:
  assumes "BGS_solid_part c s = Returned s'"
  shows "ctl s' = ctl s"
proof -
  from assms obtain s2 s4 s7 s9 where
    h2: "(if withCht (manager s)
          then fluidToSolidThermalTransfer c (emit [FluidToSolidMechaTransfer] s)
          else Returned (emit [FluidToSolidMechaTransfer] s)) = Returned s2" and
    h4: "computeSolidInterfaceResidual c ((SolidSolver_run_step s2)\<lparr>solidHasRun := True\<rparr>) = Returned s4" and
    h7: "(if withCht (manager s4)
          then update_CHT_error c (s4\<lparr>errValue := criterion_update c (solidInterfaceResidual s4)\<rparr>)
          else Returned (s4\<lparr>errValue := criterion_update c (solidInterfaceResidual s4)\<rparr>)) = Returned s7" and
    h9: "relaxSolidPosition (s7\<lparr>FSIConv := isVerified c (errValue s7) (errValue_CHT s7)\<rparr>) = Returned s9" and
    h10: "(if withCht (manager s9) then relaxCHT s9 else Returned s9) = Returned s'"
    unfolding BGS_solid_part_def by (blast dest: and_then_Returned)
  have "ctl s2 = ctl s"
    using h2 by (auto dest: ctl_fluidToSolidThermalTransfer split: if_splits)
  moreover have "ctl s4 = ctl s2"
    using h4 by (auto dest: ctl_computeSolidInterfaceResidual)
  moreover have "ctl s7 = ctl s4"
    using h7 by (auto dest: ctl_update_CHT_error split: if_splits)
  moreover have "ctl s9 = ctl s7"
    using h9 by (auto dest: ctl_relaxSolidPosition)
  moreover have "ctl s' = ctl s9"
    using h10 by (auto dest: ctl_relaxCHT split: if_splits)
  ultimately show ?thesis by simp
qed

lemma FSIIter_BGS_finish [simp]: "FSIIter (BGS_finish s) = Suc (FSIIter s)"
  by (simp add: BGS_finish_def Let_def emit_def writeRealTimeData_def)

lemma FSIIter_ctl: "ctl s' = ctl s \<Longrightarrow> FSIIter s' = FSIIter s"
  by (simp add: ctl_def)

lemma timeIter_ctl: "ctl s' = ctl s \<Longrightarrow> timeIter s' = timeIter s"
  by (simp add: ctl_def)

lemma BGS_body_pre:
  assumes "BGS_body c s = Returned s'"
  shows "\<exists>s4. ctl s4 = ctl s \<and> s' = BGS_finish s4"
proof -
  from assms obtain s3 s4 where
    h3: "BGS_fluid_part c s = Returned s3" and
    h4: "(if int (timeIter s3) > timeIterTreshold s3 then BGS_solid_part c s3 else Returned s3) = Returned s4" and
    h5: "s' = BGS_finish s4"
    unfolding BGS_body_def by (auto dest!: and_then_Returned)
  have "ctl s3 = ctl s" using h3 by (rule ctl_BGS_fluid_part)
  moreover have "ctl s4 = ctl s3"
    using h4 by (auto dest: ctl_BGS_solid_part split: if_splits)
  ultimately show ?thesis using h5 by auto
qed

lemma FSIIter_BGS_body: "BGS_body c s = Returned s' \<Longrightarrow> FSIIter s' = Suc (FSIIter s)"
  by (auto dest!: BGS_body_pre dest: FSIIter_ctl)

text \<open>The loop of \<open>AlgorithmBGSStaticRelax.fsiCoupling\<close>.\<close>

function BGS_loop :: "collaborators \<Rightarrow> int \<Rightarrow> algorithm \<Rightarrow> algorithm outcome" where
  "BGS_loop c nbFSIIter s =
    (if int (FSIIter s) < nbFSIIter \<and> \<not> isVerified c (errValue s) (errValue_CHT s)
     then (case BGS_body c s of
             Returned s' \<Rightarrow> BGS_loop c nbFSIIter s'
           | Raised e s' \<Rightarrow> Raised e s')
     else Returned s)"
  by pat_completeness auto
termination
  by (relation "measure (\<lambda>(c, nbFSIIter, s). nat (nbFSIIter - int (FSIIter s)))")
     (auto dest: FSIIter_BGS_body)

declare BGS_loop.simps [simp del]

text \<open>\<open>AlgorithmBGSStaticRelax.fsiCoupling\<close>, inherited by \<open>AlgorithmBGSAitkenRelax\<close>.\<close>

definition BGS_enter :: "algorithm \<Rightarrow> algorithm" where
  "BGS_enter s =
    (if int (timeIter s) > timeIterTreshold s
     then emit [Print ''*************** Enter Block Gauss Seidel (BGS) method for strong coupling FSI ***************''] s
     else s)
    \<lparr> FSIIter := 0, FSIConv := False, errValue := 10 ^ 12, errValue_CHT := 10 ^ 6,
      solidHasRun := False \<rparr>"

definition BGS_exit :: "algorithm \<Rightarrow> algorithm" where
  "BGS_exit s =
    (if int (timeIter s) > timeIterTreshold s
     then emit [Print ''*************** BGS is converged ***************''] s
     else s)"

definition BGS_fsiCoupling :: "collaborators \<Rightarrow> algorithm \<Rightarrow> algorithm outcome" where
  "BGS_fsiCoupling c s =
    and_then (BGS_loop c (nbFSIIter_of s) (BGS_enter s)) (\<lambda>s'. Returned (BGS_exit s'))"

section \<open>Interface quasi-Newton sub-iterations\<close>

text \<open>
  The local variables of \<open>AlgorithmIQN_ILS.fsiCoupling\<close>. \<open>Vk_mat\<close> and \<open>Wk_mat\<close> hold
  the transposes of the arrays of the source: the list of the columns. \<open>Vk\<close> and \<open>Wk\<close> are
  lists of arrays; a one-dimensional array in them is a matrix of one row.
\<close>

record iqn_locals =
  res :: field
  solidInterfaceResidual0 :: field
  solidInterfaceDisplacement_tilde :: field
  solidInterfaceDisplacement_tilde1 :: field
  delta_ds :: field
  Vk_mat :: matrix
  Wk_mat :: matrix
  Vk :: "matrix list"
  Wk :: "matrix list"
  nIt :: nat

definition on_state :: "algorithm outcome \<Rightarrow> iqn_locals \<Rightarrow> (algorithm \<times> iqn_locals) outcome" where
  "on_state r l = (case r of Returned s \<Rightarrow> Returned (s, l) | Raised e s \<Rightarrow> Raised e (s, l))"

text \<open>
  \<open>mpiGatherInterfaceData\<close> on the root: the three components of a field (a field is
  built with three columns). \<open>np.concatenate\<close> of the components in three or two
  dimensions.
\<close>

definition mpiGatherInterfaceData :: "field \<Rightarrow> real list \<times> real list \<times> real list" where
  "mpiGatherInterfaceData f =
    ((if 0 < length f then f ! 0 else []),
     (if 1 < length f then f ! 1 else []),
     (if 2 < length f then f ! 2 else []))"

definition components :: "nat \<Rightarrow> real list \<times> real list \<times> real list \<Rightarrow> real list" where
  "components nD xyz =
    (case xyz of (X, Y, Z) \<Rightarrow> if nD = 3 then X @ Y @ Z else X @ Y)"

definition components_diff ::
  "nat \<Rightarrow> real list \<times> real list \<times> real list \<Rightarrow> real list \<times> real list \<times> real list \<Rightarrow> real list" where
  "components_diff nD a b =
    (case a of (aX, aY, aZ) \<Rightarrow> case b of (bX, bY, bZ) \<Rightarrow>
       components nD (map2 (-) aX bX, map2 (-) aY bY, map2 (-) aZ bZ))"

text \<open>
  \<open>np.vstack\<close> raises on an empty list. \<open>np.delete(M, np.s_[i:], 1)\<close> removes the columns
  from index \<open>i\<close> on, a negative \<open>i\<close> counting from the end.
\<close>

definition vstack :: "matrix list \<Rightarrow> error + matrix" where
  "vstack Ms =
    (if Ms = [] then Inl (ValueError ''need at least one array to concatenate'')
     else Inr (concat Ms))"

definition np_delete_from :: "matrix \<Rightarrow> int \<Rightarrow> matrix" where
  "np_delete_from M i =
    (if i < 0 then take (nat (int (length M) + i)) M else take (nat i) M)"

text \<open>
  \<open>qrSolve\<close>: the numbers come from the QR filtering, which is not in the source file;
  the filter \<open>Degroote1\<close> returns the matrix \<open>W\<close> it was given, an unknown filter raises.
\<close>

definition qrSolve ::
  "collaborators \<Rightarrow> algorithm \<Rightarrow> matrix \<Rightarrow> matrix \<Rightarrow> real list \<Rightarrow> error + (real list \<times> matrix)" where
  "qrSolve c s Vm Wm r =
    (if qrFilter s = ''Degroote1'' then Inr (fst (qrNumerics c ''Degroote1'' Vm Wm r), Wm)
     else if qrFilter s = ''Degroote2'' then Inr (qrNumerics c ''Degroote2'' Vm Wm r)
     else if qrFilter s = ''Haelterman'' then Inr (qrNumerics c ''Haelterman'' Vm Wm r)
     else Inl (NameError ''IQN-ILS Algorithm: the QR filtering technique is unknown!''))"

text \<open>\<open>np.dot(W, c)\<close> for \<open>W\<close> given by its columns: the combination of the columns.\<close>

definition lincomb :: "nat \<Rightarrow> matrix \<Rightarrow> real list \<Rightarrow> real list" where
  "lincomb n cols cs =
    foldr (\<lambda>(col, a) acc. map2 (+) (map ((*) a) col) acc) (zip cols cs) (replicate n 0)"

text \<open>The condition under which the first sub-iteration relaxes instead of using the history.\<close>

definition IQN_relaxes :: "algorithm \<Rightarrow> bool" where
  "IQN_relaxes s =
    ((FSIIter s = 0 \<and>
        (nbTimeToKeep s = 0 \<or>
         (nbTimeToKeep s \<noteq> 0 \<and>
            (maxNbOfItReached s \<or> convergenceReachedInOneIt s \<or> timeIter s = 1))))
     \<or> timeIter s < 1)"

text \<open>The block of the root process: new columns, the least-squares problem, the correction.\<close>

definition IQN_root_update :: "collaborators \<Rightarrow> algorithm \<Rightarrow> iqn_locals \<Rightarrow> error + iqn_locals" where
  "IQN_root_update c s l =
    (let nD = getnDim (manager s);
         n = ns (interfaceInterpolator s);
         res_Gat = mpiGatherInterfaceData (res l);
         res0_Gat = mpiGatherInterfaceData (solidInterfaceResidual0 l);
         tilde_Gat = mpiGatherInterfaceData (solidInterfaceDisplacement_tilde l);
         tilde1_Gat = mpiGatherInterfaceData (solidInterfaceDisplacement_tilde1 l);
         l1 = (if FSIIter s > 0
               then l\<lparr> Vk := [components_diff nD res_Gat res0_Gat] # Vk l,
                       Wk := [components_diff nD tilde_Gat tilde1_Gat] # Wk l,
                       nIt := nIt l + 1 \<rparr>
               else l)
     in case vstack (Vk l1) of
          Inl e \<Rightarrow> Inl e
        | Inr vm \<Rightarrow>
           (case vstack (Wk l1) of
              Inl e \<Rightarrow> Inl e
            | Inr wm \<Rightarrow>
               (let cut = (int (length vm) > int (nD * n) \<and> qrFilter s = ''Degroote1'');
                    vm1 = (if cut then np_delete_from vm (int (nD * n) - int (length vm)) else vm);
                    wm1 = (if cut then np_delete_from wm (int (nD * n) - int (length wm)) else wm);
                    l2 = l1\<lparr>Vk_mat := vm1, Wk_mat := wm1\<rparr>;
                    dummy_Res = components nD res_Gat
                in case (if useQR s then qrSolve c s vm1 wm1 dummy_Res
                         else Inr (lstsq c vm1 (map uminus dummy_Res), wm1)) of
                     Inl e \<Rightarrow> Inl e
                   | Inr (cc, dummy_W) \<Rightarrow>
                      (let v = map2 (+) (lincomb (length dummy_Res) dummy_W cc) dummy_Res;
                           k = length v div (if nD = 3 then 3 else 2);
                           X = take k v;
                           Y = take k (drop k v);
                           Z = (if nD = 3 then take k (drop (2 * k) v) else replicate n 0)
                       in Inr (l2\<lparr>delta_ds := [X, Y, Z]\<rparr>)))))"

definition IQN_correct ::
  "collaborators \<Rightarrow> algorithm \<times> iqn_locals \<Rightarrow> (algorithm \<times> iqn_locals) outcome" where
  "IQN_correct c sl =
    (case sl of (s, l) \<Rightarrow>
      (case (if myid s = 0 then IQN_root_update c s l else Inr l) of
         Inl e \<Rightarrow> Raised e (s, l)
       | Inr l3 \<Rightarrow>
          (case field_iadd (solidInterfaceDisplacement (interfaceInterpolator s)) (Some (delta_ds l3)) of
             Inl e \<Rightarrow> Raised e (s, l3)
           | Inr f \<Rightarrow>
              Returned (s\<lparr>interfaceInterpolator :=
                           (interfaceInterpolator s)\<lparr>solidInterfaceDisplacement := Some f\<rparr>\<rparr>, l3))))"

definition IQN_copy :: "algorithm \<Rightarrow> iqn_locals \<Rightarrow> iqn_locals" where
  "IQN_copy s l =
    (let copied = l\<lparr> solidInterfaceResidual0 := res l,
                     solidInterfaceDisplacement_tilde1 := solidInterfaceDisplacement_tilde l \<rparr>
     in if computeTangentMatrixBasedOnFirstIt s
        then (if FSIIter s = 0 then copied else l)
        else copied)"

definition IQN_after_residual ::
  "collaborators \<Rightarrow> algorithm \<times> iqn_locals \<Rightarrow> (algorithm \<times> iqn_locals) outcome" where
  "IQN_after_residual c sl =
    (case sl of (s3, l0) \<Rightarrow>
      (let l1 = l0\<lparr>res := solidInterfaceResidual s3\<rparr>;
           s4 = s3\<lparr>errValue := criterion_update c (res l1)\<rparr>;
           s5 = s4\<lparr>FSIConv := isVerified1 c (errValue s4)\<rparr>;
           l2 = l1\<lparr>solidInterfaceDisplacement_tilde :=
                     predictedDisplacement c (timeIter s5) (FSIIter s5)\<rparr>
       in and_then
            (if IQN_relaxes s5 then on_state (relaxSolidPosition s5) l2
             else IQN_correct c (s5, l2))
            (\<lambda>(s6, l3). Returned (s6, IQN_copy s6 l3))))"

definition IQN_solid_part ::
  "collaborators \<Rightarrow> algorithm \<times> iqn_locals \<Rightarrow> (algorithm \<times> iqn_locals) outcome" where
  "IQN_solid_part c sl =
    (case sl of (s, l) \<Rightarrow>
      and_then
        (on_state (computeSolidInterfaceResidual c
                     (SolidSolver_run_step (emit [FluidToSolidMechaTransfer] s))) l)
        (IQN_after_residual c))"

definition IQN_finish :: "algorithm \<Rightarrow> algorithm" where
  "IQN_finish s =
    (let s1 = (if writeInFSIloop s then writeRealTimeData s else s)
     in s1\<lparr>FSIIter := FSIIter s1 + 1\<rparr>)"

definition IQN_body ::
  "collaborators \<Rightarrow> algorithm \<times> iqn_locals \<Rightarrow> (algorithm \<times> iqn_locals) outcome" where
  "IQN_body c sl =
    (case sl of (s, l) \<Rightarrow>
      and_then
        (on_state (FluidSolver_run_step c
                     (emit [SolidToFluidMechaTransfer, FluidMeshUpdate (timeIter s)] s)) l)
        (\<lambda>(s3, l3).
           and_then
             (if int (timeIter s3) > timeIterTreshold s3 then IQN_solid_part c (s3, l3)
              else Returned (s3, l3))
             (\<lambda>(s4, l4). Returned (IQN_finish s4, l4))))"

text \<open>
  The configuration of a state: everything \<open>ctl\<close> holds but the sub-iteration counter,
  which the end of a sub-iteration increments.
\<close>

definition cfg :: "algorithm \<Rightarrow>
    (algo_kind \<times> manager \<times> nat \<times> int \<times> int \<times> nat \<times> nat) \<times>
    (int \<times> matrix list \<times> matrix list \<times> bool \<times> bool) \<times>
    (real \<times> real \<times> bool \<times> string \<times> bool \<times> bool \<times> nat \<times> real)" where
  "cfg s = ctl (s\<lparr>FSIIter := 0\<rparr>)"

lemma cfg_of_ctl: "ctl s' = ctl s \<Longrightarrow> cfg s' = cfg s"
  by (simp add: cfg_def ctl_def)

lemma cfg_fields:
  assumes "cfg s' = cfg s"
  shows "kind s' = kind s" "manager s' = manager s" "myid s' = myid s"
    "nbFSIIterMax s' = nbFSIIterMax s" "timeIterTreshold s' = timeIterTreshold s"
    "timeIter s' = timeIter s" "nbTimeToKeep s' = nbTimeToKeep s" "V s' = V s" "W s' = W s"
    "maxNbOfItReached s' = maxNbOfItReached s"
    "convergenceReachedInOneIt s' = convergenceReachedInOneIt s"
    "deltaT s' = deltaT s" "totTime s' = totTime s" "totNbOfFSIIt s' = totNbOfFSIIt s"
    "nbFSIIter_of s' = nbFSIIter_of s"
  using assms by (simp_all add: cfg_def ctl_def nbFSIIter_of_def)

lemma cfg_upd_simps [simp]:
  "cfg (s\<lparr>FSIIter := k\<rparr>) = cfg s"
  "cfg (s\<lparr>solidHasRun := b\<rparr>) = cfg s"
  "cfg (s\<lparr>errValue := x\<rparr>) = cfg s"
  "cfg (s\<lparr>errValue_CHT := x\<rparr>) = cfg s"
  "cfg (s\<lparr>FSIConv := b\<rparr>) = cfg s"
  "cfg (s\<lparr>trace := evs\<rparr>) = cfg s"
  "cfg (s\<lparr>interfaceInterpolator := ip\<rparr>) = cfg s"
  "cfg (s\<lparr>time := x\<rparr>) = cfg s"
  by (simp_all add: cfg_def ctl_def)

lemma cfg_emit [simp]: "cfg (emit evs s) = cfg s"
  by (simp add: emit_def)

lemma cfg_writeRealTimeData [simp]: "cfg (writeRealTimeData s) = cfg s"
  by (simp add: writeRealTimeData_def)

lemma cfg_BGS_finish [simp]: "cfg (BGS_finish s) = cfg s"
  by (simp add: BGS_finish_def Let_def)

lemma cfg_BGS_body: "BGS_body c s = Returned s' \<Longrightarrow> cfg s' = cfg s"
  by (auto dest!: BGS_body_pre dest: cfg_of_ctl)

lemma cfg_BGS_loop: "BGS_loop c nb s = Returned s' \<Longrightarrow> cfg s' = cfg s"
proof (induction c nb s rule: BGS_loop.induct)
  case (1 c nbFSIIter s)
  show ?case
  proof (cases "int (FSIIter s) < nbFSIIter \<and> \<not> isVerified c (errValue s) (errValue_CHT s)")
    case True
    with "1.prems" obtain s1 where b: "BGS_body c s = Returned s1"
      and l: "BGS_loop c nbFSIIter s1 = Returned s'"
      by (subst (asm) BGS_loop.simps) (auto split: outcome.splits)
    from "1.IH" [OF True b l] cfg_BGS_body [OF b] show ?thesis by simp
  next
    case False
    with "1.prems" show ?thesis by (subst (asm) BGS_loop.simps) auto
  qed
qed

lemma cfg_BGS_enter [simp]: "cfg (BGS_enter s) = cfg s"
  by (simp add: BGS_enter_def)

lemma cfg_BGS_exit [simp]: "cfg (BGS_exit s) = cfg s"
  by (simp add: BGS_exit_def)

lemma cfg_BGS_fsiCoupling: "BGS_fsiCoupling c s = Returned s' \<Longrightarrow> cfg s' = cfg s"
  by (auto simp: BGS_fsiCoupling_def dest!: and_then_Returned cfg_BGS_loop)

lemma on_state_Returned: "on_state r l = Returned (s', l') \<Longrightarrow> r = Returned s' \<and> l' = l"
  by (cases r) (simp_all add: on_state_def)

lemma ctl_IQN_correct: "IQN_correct c (s, l) = Returned (s', l') \<Longrightarrow> ctl s' = ctl s"
  by (auto simp: IQN_correct_def split: sum.splits)

lemma ctl_IQN_after_residual:
  "IQN_after_residual c (s, l) = Returned (s', l') \<Longrightarrow> ctl s' = ctl s"
  by (auto simp: IQN_after_residual_def Let_def
      dest!: and_then_Returned on_state_Returned
      dest: ctl_relaxSolidPosition ctl_IQN_correct split: if_splits)

lemma ctl_IQN_solid_part:
  assumes "IQN_solid_part c (s, l) = Returned (s', l')"
  shows "ctl s' = ctl s"
proof -
  from assms obtain s3 l0 where
    h3: "computeSolidInterfaceResidual c (SolidSolver_run_step (emit [FluidToSolidMechaTransfer] s))
           = Returned s3" and
    h6: "IQN_after_residual c (s3, l0) = Returned (s', l')"
    unfolding IQN_solid_part_def
    by (auto dest!: and_then_Returned on_state_Returned)
  have "ctl s3 = ctl s"
    using h3 by (auto dest: ctl_computeSolidInterfaceResidual)
  with ctl_IQN_after_residual [OF h6] show ?thesis by simp
qed

lemma IQN_body_pre:
  assumes "IQN_body c (s, l) = Returned (s', l')"
  shows "\<exists>s4. ctl s4 = ctl s \<and> s' = IQN_finish s4"
proof -
  from assms obtain s3 l3 s4 where
    h3: "FluidSolver_run_step c (emit [SolidToFluidMechaTransfer, FluidMeshUpdate (timeIter s)] s)
           = Returned s3" and
    h4: "(if int (timeIter s3) > timeIterTreshold s3 then IQN_solid_part c (s3, l3)
          else Returned (s3, l3)) = Returned (s4, l')" and
    h5: "s' = IQN_finish s4"
    unfolding IQN_body_def
    by (auto dest!: and_then_Returned on_state_Returned)
  have "ctl s3 = ctl s" using h3 by (auto dest: ctl_FluidSolver_run_step)
  moreover have "ctl s4 = ctl s3"
    using h4 by (auto dest: ctl_IQN_solid_part split: if_splits)
  ultimately show ?thesis using h5 by auto
qed

lemma FSIIter_IQN_finish [simp]: "FSIIter (IQN_finish s) = Suc (FSIIter s)"
  by (simp add: IQN_finish_def Let_def emit_def writeRealTimeData_def)

lemma cfg_IQN_finish [simp]: "cfg (IQN_finish s) = cfg s"
  by (simp add: IQN_finish_def Let_def)

lemma FSIIter_IQN_body:
  "IQN_body c (s, l) = Returned (s', l') \<Longrightarrow> FSIIter s' = Suc (FSIIter s)"
  by (auto dest!: IQN_body_pre dest: FSIIter_ctl)

lemma cfg_IQN_body:
  "IQN_body c (s, l) = Returned (s', l') \<Longrightarrow> cfg s' = cfg s"
  by (auto dest!: IQN_body_pre dest: cfg_of_ctl)

text \<open>The loop of \<open>AlgorithmIQN_ILS.fsiCoupling\<close>.\<close>

function IQN_loop ::
  "collaborators \<Rightarrow> int \<Rightarrow> algorithm \<times> iqn_locals \<Rightarrow> (algorithm \<times> iqn_locals) outcome" where
  "IQN_loop c nbFSIIter sl =
    (if int (FSIIter (fst sl)) < nbFSIIter
        \<and> \<not> isVerified c (errValue (fst sl)) (errValue_CHT (fst sl))
     then (case IQN_body c sl of
             Returned sl' \<Rightarrow> IQN_loop c nbFSIIter sl'
           | Raised e sl' \<Rightarrow> Raised e sl')
     else Returned sl)"
  by pat_completeness auto
termination
proof (relation "measure (\<lambda>(c, nbFSIIter, sl). nat (nbFSIIter - int (FSIIter (fst sl))))")
  show "wf (measure (\<lambda>(c, nbFSIIter, sl). nat (nbFSIIter - int (FSIIter (fst sl)))))"
    by simp
next
  fix c :: collaborators and nbFSIIter :: int and sl sl' :: "algorithm \<times> iqn_locals"
  assume cond: "int (FSIIter (fst sl)) < nbFSIIter
        \<and> \<not> isVerified c (errValue (fst sl)) (errValue_CHT (fst sl))"
    and b: "IQN_body c sl = Returned sl'"
  from b have "FSIIter (fst sl') = Suc (FSIIter (fst sl))"
    by (cases sl, cases sl') (auto dest: FSIIter_IQN_body)
  with cond show "((c, nbFSIIter, sl'), (c, nbFSIIter, sl))
      \<in> measure (\<lambda>(c, nbFSIIter, sl). nat (nbFSIIter - int (FSIIter (fst sl))))"
    by simp
qed

declare IQN_loop.simps [simp del]

text \<open>The entry of \<open>fsiCoupling\<close>: the attributes reset and the local variables.\<close>

definition IQN_enter :: "algorithm \<Rightarrow> algorithm" where
  "IQN_enter s =
    (if int (timeIter s) > timeIterTreshold s
     then emit [Print ''*************** Enter Interface Quasi Newton - Inverse Least Square (IQN-ILS) method for strong coupling FSI ***************''] s
     else s)
    \<lparr> FSIIter := 0, FSIConv := False, errValue := 1, errValue_CHT := 10 ^ 6 \<rparr>"

definition IQN_locals_init :: "algorithm \<Rightarrow> iqn_locals" where
  "IQN_locals_init s =
    (let n = ns (interfaceInterpolator s);
         reuse = (nbTimeToKeep s \<noteq> 0 \<and> timeIter s > 1)
     in \<lparr> res = FlexInterfaceData n 3,
          solidInterfaceResidual0 = FlexInterfaceData n 3,
          solidInterfaceDisplacement_tilde = FlexInterfaceData n 3,
          solidInterfaceDisplacement_tilde1 = FlexInterfaceData n 3,
          delta_ds = FlexInterfaceData n 3,
          Vk_mat = [replicate (getnDim (manager s) * n) 0],
          Wk_mat = [replicate (getnDim (manager s) * n) 0],
          Vk = (if reuse then V s else []),
          Wk = (if reuse then W s else []),
          nIt = 0 \<rparr>)"

text \<open>
  The update of the history after the loop. \<open>Vk_mat[:,0:nIt].T\<close> is the first \<open>nIt\<close>
  columns of \<open>Vk_mat\<close>, as rows.
\<close>

definition IQN_updateHistory :: "int \<Rightarrow> algorithm \<Rightarrow> iqn_locals \<Rightarrow> algorithm" where
  "IQN_updateHistory nbFSIIter s l =
    (if nbTimeToKeep s \<noteq> 0 \<and> timeIter s \<ge> 1 then
       (if \<not> (FSIIter s = 1 \<and> FSIConv s \<and> length (V s) = 0) then
          (let s1 = s\<lparr>convergenceReachedInOneIt := False\<rparr> in
           if int (FSIIter s1) \<ge> nbFSIIter \<and> \<not> FSIConv s1 then
             (emit [Print ''WARNING: IQN-ILS using information from {} previous time steps reached max number of iterations. Next time step is run without using any information from previous time steps!''] s1)
               \<lparr> maxNbOfItReached := True, V := [], W := [] \<rparr>
           else
             (let s2 = (emit [Print ''Updating V and W matrices...''] s1)
                         \<lparr> maxNbOfItReached := False,
                           V := take (nIt l) (Vk_mat l) # V s1,
                           W := take (nIt l) (Wk_mat l) # W s1 \<rparr>
              in if int (timeIter s2) > nbTimeToKeep s2 \<and> int (length (V s2)) > nbTimeToKeep s2
                 then s2\<lparr>V := butlast (V s2), W := butlast (W s2)\<rparr>
                 else s2))
        else
          (emit [Print ''WARNING: IQN-ILS algorithm convergence reached in one iteration at the beginning of the simulation. V and W matrices cannot be built. BGS will be employed for the next time step!''] s)
            \<lparr> convergenceReachedInOneIt := True \<rparr>)
     else s)"

definition IQN_exit :: "algorithm \<Rightarrow> algorithm" where
  "IQN_exit s =
    (if int (timeIter s) > timeIterTreshold s
     then emit [Print ''*************** IQN-ILS is converged ***************''] s
     else s)"

definition IQN_fsiCoupling :: "collaborators \<Rightarrow> algorithm \<Rightarrow> algorithm outcome" where
  "IQN_fsiCoupling c s =
    (case IQN_loop c (nbFSIIter_of s) (IQN_enter s, IQN_locals_init s) of
       Raised e (s', l) \<Rightarrow> Raised e s'
     | Returned (s', l) \<Rightarrow> Returned (IQN_exit (IQN_updateHistory (nbFSIIter_of s) s' l)))"

lemma cfg_IQN_loop:
  "IQN_loop c nb sl = Returned sl' \<Longrightarrow> cfg (fst sl') = cfg (fst sl)"
proof (induction c nb sl rule: IQN_loop.induct)
  case (1 c nbFSIIter sl)
  show ?case
  proof (cases "int (FSIIter (fst sl)) < nbFSIIter
        \<and> \<not> isVerified c (errValue (fst sl)) (errValue_CHT (fst sl))")
    case True
    with "1.prems" obtain sl1 where b: "IQN_body c sl = Returned sl1"
      and l: "IQN_loop c nbFSIIter sl1 = Returned sl'"
      by (subst (asm) IQN_loop.simps) (auto split: outcome.splits)
    from b have "cfg (fst sl1) = cfg (fst sl)"
      by (cases sl, cases sl1) (auto dest: cfg_IQN_body)
    with "1.IH" [OF True b l] show ?thesis by simp
  next
    case False
    with "1.prems" show ?thesis by (subst (asm) IQN_loop.simps) auto
  qed
qed

lemma cfg_IQN_enter [simp]: "cfg (IQN_enter s) = cfg s"
  by (simp add: IQN_enter_def)

lemma timeIter_IQN_updateHistory [simp]:
  "timeIter (IQN_updateHistory nb s l) = timeIter s"
  by (simp add: IQN_updateHistory_def Let_def emit_def)

lemma timeIter_IQN_exit [simp]: "timeIter (IQN_exit s) = timeIter s"
  by (simp add: IQN_exit_def emit_def)

lemma IQN_fsiCoupling_Returned:
  assumes "IQN_fsiCoupling c s = Returned s'"
  shows "\<exists>s1 l1. IQN_loop c (nbFSIIter_of s) (IQN_enter s, IQN_locals_init s) = Returned (s1, l1)
           \<and> cfg s1 = cfg s \<and> s' = IQN_exit (IQN_updateHistory (nbFSIIter_of s) s1 l1)"
proof -
  from assms obtain s1 l1 where
    l: "IQN_loop c (nbFSIIter_of s) (IQN_enter s, IQN_locals_init s) = Returned (s1, l1)" and
    e: "s' = IQN_exit (IQN_updateHistory (nbFSIIter_of s) s1 l1)"
    by (auto simp: IQN_fsiCoupling_def split: outcome.splits prod.splits)
  from cfg_IQN_loop [OF l] have "cfg s1 = cfg s" by simp
  with l e show ?thesis by blast
qed

lemma timeIter_IQN_fsiCoupling:
  "IQN_fsiCoupling c s = Returned s' \<Longrightarrow> timeIter s' = timeIter s"
  by (auto dest!: IQN_fsiCoupling_Returned dest: cfg_fields(6))

section \<open>Thermal Block Gauss-Seidel sub-iterations\<close>

text \<open>The body and the loop of \<open>ThermalAlgorithmBGS.fsiCoupling\<close>.\<close>

definition Thermal_solid_part :: "collaborators \<Rightarrow> algorithm \<Rightarrow> algorithm outcome" where
  "Thermal_solid_part c s =
    and_then (fluidToSolidThermalTransfer c s)
      (\<lambda>s2. and_then (update_CHT_error c ((SolidSolver_run_step s2)\<lparr>solidHasRun := True\<rparr>))
      (\<lambda>s7. relaxCHT (s7\<lparr>FSIConv := isVerified c (errValue s7) (errValue_CHT s7)\<rparr>)))"

definition Thermal_body :: "collaborators \<Rightarrow> algorithm \<Rightarrow> algorithm outcome" where
  "Thermal_body c s =
    and_then (FluidSolver_run_step c (if solidHasRun s then solidToFluidThermalTransfer s else s))
      (\<lambda>s3. and_then
               (if int (timeIter s3) > timeIterTreshold s3 then Thermal_solid_part c s3
                else Returned s3)
               (\<lambda>s4. Returned (BGS_finish s4)))"

lemma ctl_Thermal_solid_part:
  assumes "Thermal_solid_part c s = Returned s'"
  shows "ctl s' = ctl s"
proof -
  from assms obtain s2 s7 where
    h2: "fluidToSolidThermalTransfer c s = Returned s2" and
    h7: "update_CHT_error c ((SolidSolver_run_step s2)\<lparr>solidHasRun := True\<rparr>) = Returned s7" and
    h9: "relaxCHT (s7\<lparr>FSIConv := isVerified c (errValue s7) (errValue_CHT s7)\<rparr>) = Returned s'"
    unfolding Thermal_solid_part_def by (blast dest: and_then_Returned)
  have "ctl s2 = ctl s" using h2 by (rule ctl_fluidToSolidThermalTransfer)
  moreover have "ctl s7 = ctl s2" using h7 by (auto dest: ctl_update_CHT_error)
  moreover have "ctl s' = ctl s7" using h9 by (auto dest: ctl_relaxCHT)
  ultimately show ?thesis by simp
qed

lemma Thermal_body_pre:
  assumes "Thermal_body c s = Returned s'"
  shows "\<exists>s4. ctl s4 = ctl s \<and> s' = BGS_finish s4"
proof -
  from assms obtain s3 s4 where
    h3: "FluidSolver_run_step c (if solidHasRun s then solidToFluidThermalTransfer s else s)
           = Returned s3" and
    h4: "(if int (timeIter s3) > timeIterTreshold s3 then Thermal_solid_part c s3
          else Returned s3) = Returned s4" and
    h5: "s' = BGS_finish s4"
    unfolding Thermal_body_def by (auto dest!: and_then_Returned)
  have "ctl s3 = ctl s"
    using h3 by (auto dest!: ctl_FluidSolver_run_step split: if_splits)
  moreover have "ctl s4 = ctl s3"
    using h4 by (auto dest: ctl_Thermal_solid_part split: if_splits)
  ultimately show ?thesis using h5 by auto
qed

lemma FSIIter_Thermal_body: "Thermal_body c s = Returned s' \<Longrightarrow> FSIIter s' = Suc (FSIIter s)"
  by (auto dest!: Thermal_body_pre dest: FSIIter_ctl)

lemma cfg_Thermal_body: "Thermal_body c s = Returned s' \<Longrightarrow> cfg s' = cfg s"
  by (auto dest!: Thermal_body_pre dest: cfg_of_ctl)

function Thermal_loop :: "collaborators \<Rightarrow> int \<Rightarrow> algorithm \<Rightarrow> algorithm outcome" where
  "Thermal_loop c nbFSIIter s =
    (if int (FSIIter s) < nbFSIIter \<and> \<not> isVerified c (errValue s) (errValue_CHT s)
     then (case Thermal_body c s of
             Returned s' \<Rightarrow> Thermal_loop c nbFSIIter s'
           | Raised e s' \<Rightarrow> Raised e s')
     else Returned s)"
  by pat_completeness auto
termination
  by (relation "measure (\<lambda>(c, nbFSIIter, s). nat (nbFSIIter - int (FSIIter s)))")
     (auto dest: FSIIter_Thermal_body)

declare Thermal_loop.simps [simp del]

lemma cfg_Thermal_loop: "Thermal_loop c nb s = Returned s' \<Longrightarrow> cfg s' = cfg s"
proof (induction c nb s rule: Thermal_loop.induct)
  case (1 c nbFSIIter s)
  show ?case
  proof (cases "int (FSIIter s) < nbFSIIter \<and> \<not> isVerified c (errValue s) (errValue_CHT s)")
    case True
    with "1.prems" obtain s1 where b: "Thermal_body c s = Returned s1"
      and l: "Thermal_loop c nbFSIIter s1 = Returned s'"
      by (subst (asm) Thermal_loop.simps) (auto split: outcome.splits)
    from "1.IH" [OF True b l] cfg_Thermal_body [OF b] show ?thesis by simp
  next
    case False
    with "1.prems" show ?thesis by (subst (asm) Thermal_loop.simps) auto
  qed
qed

definition Thermal_enter :: "algorithm \<Rightarrow> algorithm" where
  "Thermal_enter s =
    (if int (timeIter s) > timeIterTreshold s
     then emit [Print ''*************** Enter Block Gauss Seidel (BGS) method for strong coupling CHT ***************''] s
     else s)
    \<lparr> FSIIter := 0, FSIConv := False, errValue := 0, errValue_CHT := 10 ^ 12,
      solidHasRun := False \<rparr>"

definition Thermal_fsiCoupling :: "collaborators \<Rightarrow> algorithm \<Rightarrow> algorithm outcome" where
  "Thermal_fsiCoupling c s =
    and_then (Thermal_loop c (nbFSIIter_of s) (Thermal_enter s)) (\<lambda>s'. Returned (BGS_exit s'))"

lemma cfg_Thermal_fsiCoupling: "Thermal_fsiCoupling c s = Returned s' \<Longrightarrow> cfg s' = cfg s"
  by (auto simp: Thermal_fsiCoupling_def Thermal_enter_def dest!: and_then_Returned cfg_Thermal_loop)

section \<open>The time loop and the run\<close>

text \<open>\<open>self.fsiCoupling()\<close>: the method of the class of the object.\<close>

definition fsiCoupling :: "collaborators \<Rightarrow> algorithm \<Rightarrow> algorithm outcome" where
  "fsiCoupling c s =
    (case kind s of
       BGSStaticRelax \<Rightarrow> BGS_fsiCoupling c s
     | BGSAitkenRelax \<Rightarrow> BGS_fsiCoupling c s
     | IQN_ILS \<Rightarrow> IQN_fsiCoupling c s
     | ThermalBGS \<Rightarrow> Thermal_fsiCoupling c s)"

lemma timeIter_fsiCoupling: "fsiCoupling c s = Returned s' \<Longrightarrow> timeIter s' = timeIter s"
  by (auto simp: fsiCoupling_def split: algo_kind.splits
      dest: timeIter_IQN_fsiCoupling cfg_BGS_fsiCoupling [THEN cfg_fields(6)]
        cfg_Thermal_fsiCoupling [THEN cfg_fields(6)])

text \<open>\<open>solidDisplacementPredictor\<close>, with the velocities the solid solver returns.\<close>

definition solidDisplacementPredictor :: "collaborators \<Rightarrow> algorithm \<Rightarrow> algorithm outcome" where
  "solidDisplacementPredictor c s =
    (let v = getNodalVelocity c (timeIter s);
         vnM1 = getNodalVelocityNm1 c (timeIter s);
         increment = field_add (field_scale (alpha_0 s * deltaT s) v)
                       (field_scale (alpha_1 s * deltaT s) (field_sub v vnM1));
         ip = interfaceInterpolator s
     in case field_iadd (solidInterfaceDisplacement ip) (Some increment) of
          Inl e \<Rightarrow> Raised e s
        | Inr f \<Rightarrow>
           Returned (emit [SolidDisplacementPredictor]
                       (s\<lparr>interfaceInterpolator := ip\<lparr>solidInterfaceDisplacement := Some f\<rparr>\<rparr>)))"

text \<open>
  One pass of the loop of \<open>__unsteadyRun\<close>. The calls that only reach the solvers
  (\<open>preprocessTimeIter\<close>, \<open>update\<close>, \<open>save\<close>, \<open>remeshing\<close>) are one event.
\<close>

definition timeStep :: "collaborators \<Rightarrow> algorithm \<Rightarrow> algorithm outcome" where
  "timeStep c s =
    and_then (fsiCoupling c s)
      (\<lambda>s1.
         (let s2 = (if timeIter s1 > 0 then s1\<lparr>totNbOfFSIIt := totNbOfFSIIt s1 + FSIIter s1\<rparr> else s1);
              s3 = writeRealTimeData (emit [TimeStepUpdate (timeIter s2)] s2)
          in and_then
               (if int (timeIter s3) \<ge> timeIterTreshold s3 then solidDisplacementPredictor c s3
                else Returned s3)
               (\<lambda>s4. Returned (s4\<lparr>timeIter := timeIter s4 + 1, time := time s4 + deltaT s4\<rparr>))))"

lemma timeIter_solidDisplacementPredictor:
  "solidDisplacementPredictor c s = Returned s' \<Longrightarrow> timeIter s' = timeIter s"
  by (auto simp: solidDisplacementPredictor_def Let_def emit_def split: sum.splits)

lemma timeIter_timeStep: "timeStep c s = Returned s' \<Longrightarrow> timeIter s' = Suc (timeIter s)"
  by (auto simp: timeStep_def Let_def emit_def writeRealTimeData_def
      dest!: and_then_Returned timeIter_fsiCoupling timeIter_solidDisplacementPredictor
      split: if_splits)

function unsteadyLoop :: "collaborators \<Rightarrow> int \<Rightarrow> algorithm \<Rightarrow> algorithm outcome" where
  "unsteadyLoop c nbTimeIter s =
    (if int (timeIter s) \<le> nbTimeIter
     then (case timeStep c s of
             Returned s' \<Rightarrow> unsteadyLoop c nbTimeIter s'
           | Raised e s' \<Rightarrow> Raised e s')
     else Returned s)"
  by pat_completeness auto
termination
  by (relation "measure (\<lambda>(c, nbTimeIter, s). nat (nbTimeIter + 1 - int (timeIter s)))")
     (auto dest: timeIter_timeStep)

declare unsteadyLoop.simps [simp del]

text \<open>
  \<open>__unsteadyRun\<close>. The number of the last time step is
  \<open>int((self.totTime/self.deltaT)-1)\<close>: the quotient and the difference are the ones
  Python computes, \<open>int(x)\<close> truncates towards zero, and the division by a time step of
  zero raises.
\<close>

definition py_int :: "real \<Rightarrow> int" where
  "py_int x = (if 0 \<le> x then \<lfloor>x\<rfloor> else \<lceil>x\<rceil>)"

definition unsteadyRun :: "collaborators \<Rightarrow> algorithm \<Rightarrow> algorithm outcome" where
  "unsteadyRun c s =
    (if deltaT s = 0 then Raised (ZeroDivisionError ''float division by zero'') s
     else unsteadyLoop c (py_int (float_sub c (float_div c (totTime s) (deltaT s)) 1))
            (emit [Print ''Begin time integration''] s))"

text \<open>
  \<open>InterfaceInterpolator.getDisplacementFromSolidSolver\<close>: the processes of the solid
  interface write the displacements of their nodes, then the field is assembled. On an
  interpolator without displacement field (\<open>withFsi\<close> false) the first write raises, or
  \<open>assemble\<close> does when there is no write.
\<close>

definition getDisplacementFromSolidSolver :: "collaborators \<Rightarrow> interpolator \<Rightarrow> error + interpolator" where
  "getDisplacementFromSolidSolver c ip =
    (case solidInterfaceDisplacement ip of
       None \<Rightarrow>
         (if myid_ip ip \<in> set (getSolidInterfaceProcessors (manager_ip ip)) \<and> 0 < ns_loc ip
          then Inl (TypeError ''object does not support item assignment'')
          else Inl (AttributeError ''object has no attribute assemble''))
     | Some f \<Rightarrow> Inr (ip\<lparr>solidInterfaceDisplacement := Some (displacementFromSolidSolver c f)\<rparr>))"

text \<open>
  \<open>Algorithm.setFSIInitialConditions\<close>. The initial conditions of the two solvers are
  events.
\<close>

definition setInitialCHT :: "algorithm \<Rightarrow> algorithm" where
  "setInitialCHT s =
    (let m = chtTransferMethod (interfaceInterpolator s) in
     if withCht (manager s) then
       (if m = Some ''hFFB'' \<or> m = Some ''TFFB'' then emit [FluidSetInitialInterfaceHeatFlux] s
        else if m = Some ''hFTB'' \<or> m = Some ''FFTB'' then emit [FluidSetInitialInterfaceTemperature] s
        else s)
     else s)"

definition setFSIInitialConditions :: "collaborators \<Rightarrow> algorithm \<Rightarrow> algorithm outcome" where
  "setFSIInitialConditions c s =
    (if computationType (manager s) = ''unsteady'' then
       (let s1 = (if myid s \<in> set (getSolidSolverProcessors (manager s))
                  then emit [SolidSetInitialDisplacements] s else s)
        in case getDisplacementFromSolidSolver c (interfaceInterpolator s1) of
             Inl e \<Rightarrow> Raised e s1
           | Inr ip \<Rightarrow>
               Returned (setInitialCHT
                 (emit [SolidToFluidMechaTransfer, FluidSetInitialMeshDeformation]
                    (s1\<lparr>interfaceInterpolator := ip\<rparr>))))
     else
       (case getDisplacementFromSolidSolver c (interfaceInterpolator s) of
          Inl e \<Rightarrow> Raised e s
        | Inr ip \<Rightarrow> Returned (setInitialCHT (s\<lparr>interfaceInterpolator := ip\<rparr>))))"

text \<open>
  \<open>Algorithm.run\<close>: what precedes the \<open>try\<close>, the body of the \<open>try\<close>, the \<open>except\<close>
  clause, which prints and does not raise again, and the \<open>finally\<close> clause. An exception
  raised before the \<open>try\<close> leaves \<open>run\<close>. The history file and the timers are outside the
  state.
\<close>

definition run_prepare :: "collaborators \<Rightarrow> algorithm \<Rightarrow> algorithm outcome" where
  "run_prepare c s =
    and_then
      (setFSIInitialConditions c
         (emit [Print ''*         Begin FSI computation            *'',
                Print ''Setting FSI initial conditions...''] s))
      (\<lambda>s1. Returned (emit [Print ''FSI initial conditions are set''] s1))"

definition run_body :: "collaborators \<Rightarrow> algorithm \<Rightarrow> algorithm outcome" where
  "run_body c s =
    (if computationType (manager s) = ''unsteady'' then unsteadyRun c s
     else and_then
            (fsiCoupling c
               (s\<lparr>time := totTime s, timeIter := 1, deltaT := totTime s, writeInFSIloop := True\<rparr>))
            (\<lambda>s2. Returned (s2\<lparr>totNbOfFSIIt := FSIIter s2\<rparr>)))"

definition run_except :: "error \<Rightarrow> algorithm \<Rightarrow> algorithm" where
  "run_except e s =
    emit [Print ''A DIVINE ERROR OCCURED...EXITING COMPUTATION'', TracebackPrintExc e] s"

definition run_finally :: "algorithm \<Rightarrow> algorithm" where
  "run_finally s =
    emit ([Print ''*    End FSI computation    *'', PrintExitInfo]
          @ (if myid s \<in> set (getSolidSolverProcessors (manager s)) then [SolidExit] else [])
          @ [FluidExit]) s"

definition run :: "collaborators \<Rightarrow> algorithm \<Rightarrow> algorithm outcome" where
  "run c s =
    (case run_prepare c s of
       Raised e s0 \<Rightarrow> Raised e s0
     | Returned s0 \<Rightarrow>
        (case run_body c s0 of
           Returned s' \<Rightarrow> Returned (run_finally s')
         | Raised e s' \<Rightarrow> Returned (run_finally (run_except e s'))))"

section \<open>The claims\<close>

subsection \<open>Interpolator construction\<close>

definition manager0 :: manager where
  "manager0 =
    \<lparr> getNumberOfFluidInterfaceNodes = 2,
      getNumberOfSolidInterfaceNodes = 2,
      getNumberOfLocalFluidInterfaceNodes = 2,
      getNumberOfLocalSolidInterfaceNodes = 2,
      getnDim = 3,
      withFsi = True,
      withCht = True,
      computationType = ''unsteady'',
      getSolidSolverProcessors = [0],
      getSolidInterfaceProcessors = [0],
      getSolidGlobalIndexRange = (\<lambda>p. (0, 1)) \<rparr>"

text \<open>
  C7 as the spec states it: with CHT enabled, a transfer method outside
  \<open>TFFB\<close>, \<open>FFTB\<close>, \<open>hFTB\<close>, \<open>hFFB\<close> makes the constructor raise. The constructor does not:
  for the method \<open>'XXXX'\<close> it returns an interpolator whose method is \<open>'TFFB'\<close>.
\<close>

theorem InterfaceInterpolator_init_unknown_method_counterexample:
  "withCht manager0 \<and> Some ''XXXX'' \<notin> set (map Some cht_methods) \<and>
   \<not> (\<exists>e. InterfaceInterpolator_init manager0 None (Some ''XXXX'') (PyFloat 1) = Inl e)"
  by (simp add: manager0_def cht_methods_def InterfaceInterpolator_init_def Let_def)

text \<open>
  C7, amended: with CHT enabled, constructing an interpolator with a transfer method that
  is not one of the four known ones (\<open>None\<close> included) does not raise; the constructor
  prints that the method is not recognized and goes on with the default \<open>'TFFB'\<close>.
\<close>

theorem InterfaceInterpolator_init_default_method:
  assumes "withCht Manager" and "chtMethod \<notin> set (map Some cht_methods)"
  shows "\<exists>msgs ip. InterfaceInterpolator_init Manager mpiComm chtMethod coeff = Inr (msgs, ip)
           \<and> chtTransferMethod ip = Some ''TFFB''
           \<and> Print ''CHT transfer method not specified or not recognized, using default TFFB'' \<in> set msgs"
  using assms by (simp add: InterfaceInterpolator_init_def Let_def)

theorem InterfaceInterpolator_init_default_method_witness:
  "withCht manager0 \<and> Some ''XXXX'' \<notin> set (map Some cht_methods) \<and>
   (\<exists>msgs ip. InterfaceInterpolator_init manager0 None (Some ''XXXX'') (PyFloat 1) = Inr (msgs, ip)
      \<and> chtTransferMethod ip = Some ''TFFB''
      \<and> Print ''CHT transfer method not specified or not recognized, using default TFFB'' \<in> set msgs)"
proof -
  have h1: "withCht manager0" by (simp add: manager0_def)
  have h2: "Some ''XXXX'' \<notin> set (map Some cht_methods)" by (simp add: cht_methods_def)
  show ?thesis
    using h1 h2 InterfaceInterpolator_init_default_method [OF h1 h2, of None "PyFloat 1"]
    by blast
qed

text \<open>
  C6: the constructor of the matching-meshes interpolator raises exactly when the number
  of fluid interface nodes differs from the number of solid interface nodes.
\<close>

theorem MatchingMeshesInterpolator_init_raises_iff:
  "(MatchingMeshesInterpolator_init Manager mpiComm chtMethod coeff = Inl e)
     = (getNumberOfFluidInterfaceNodes Manager \<noteq> getNumberOfSolidInterfaceNodes Manager \<and>
        e = Exception ''Fluid and solid interface must have the same number of nodes for matching meshes ! '')"
  by (auto simp add: MatchingMeshesInterpolator_init_def InterfaceInterpolator_init_def Let_def
      split: prod.splits)

subsection \<open>Interpolation operators\<close>

lemma FlexInterfaceData_shape:
  "map length (FlexInterfaceData n k) = replicate k n"
  by (simp add: FlexInterfaceData_def)

text \<open>
  C4: the conservative interpolator goes from solid to fluid by one solve with \<open>A\<close>, into
  a field \<open>gamma\<close> of \<open>ns + d\<close> rows, and then one product with \<open>B\<close>; from fluid to solid
  by one product with \<open>B_T\<close> and then one solve with \<open>A_T\<close>. The consistent interpolator
  goes from fluid to solid by a solve with \<open>C\<close> and a product with \<open>D\<close>, and from solid
  to fluid by a solve with \<open>A\<close> and a product with \<open>B\<close>.
\<close>

theorem interpolate_solves_and_products:
  "ConservativeInterpolator_interpolateSolidToFluid ip SolverA B x =
     ([LinSolve ''A'', MatMult ''B''],
      mat_mult B (SolverA x (FlexInterfaceData (ns ip + d ip) (getDim x))))
   \<and> map length (FlexInterfaceData (ns ip + d ip) (getDim x)) = replicate (getDim x) (ns ip + d ip)
   \<and> ConservativeInterpolator_interpolateFluidToSolid ip B_T SolverA_T y out =
     ([MatMult ''B_T'', LinSolve ''A_T''], SolverA_T (mat_mult B_T y) out)
   \<and> ConsistentInterpolator_interpolateFluidToSolid ip SolverC D y =
     ([LinSolve ''C'', MatMult ''D''],
      mat_mult D (SolverC y (FlexInterfaceData (nf ip + d ip) (getDim y))))
   \<and> ConsistentInterpolator_interpolateSolidToFluid ip SolverA B x =
     ([LinSolve ''A'', MatMult ''B''],
      mat_mult B (SolverA x (FlexInterfaceData (ns ip + d ip) (getDim x))))"
  by (simp add: ConservativeInterpolator_interpolateSolidToFluid_def
      ConservativeInterpolator_interpolateFluidToSolid_def
      ConsistentInterpolator_interpolateFluidToSolid_def
      ConsistentInterpolator_interpolateSolidToFluid_def Let_def FlexInterfaceData_shape)

subsection \<open>The Robin heat flux\<close>

text \<open>
  An interpolator for the matching meshes of \<open>manager0\<close> with the method \<open>hFTB\<close>, the
  coefficient \<open>1.0\<close> and a Robin temperature of 290 and 295 at its two nodes; without MPI
  and with MPI on one process.
\<close>

definition robin_ip :: "mpi option \<Rightarrow> interpolator" where
  "robin_ip comm =
    (snd (projr (MatchingMeshesInterpolator_init manager0 comm (Some ''hFTB'') (PyFloat 1))))
      \<lparr> solidInterfaceRobinTemperature := Some [[290, 295]] \<rparr>"

lemma robin_ip_simps:
  "mpiComm_ip (robin_ip comm) = comm"
  "heatTransferCoeff (robin_ip comm) = Some (PyFloat 1)"
  "solidInterfaceRobinTemperature (robin_ip comm) = Some [[290, 295]]"
  "manager_ip (robin_ip comm) = manager0"
  "ns_loc (robin_ip comm) = 2"
  "myid_ip (robin_ip comm) = (case comm of Some c \<Rightarrow> Get_rank c | None \<Rightarrow> 0)"
  "chtTransferMethod (robin_ip comm) = Some ''hFTB''"
  by (simp_all add: robin_ip_def MatchingMeshesInterpolator_init_def InterfaceInterpolator_init_def
      generateInterfaceData_matching_def manager0_def cht_methods_def Let_def)

text \<open>
  C9 fails in the branch without MPI: for solid temperatures 300 and 310 the flux
  \<open>1.0 * (T - T_robin)\<close> is 10 and 15, but the call raises \<open>TypeError\<close> and the solid
  solver gets nothing.
\<close>

theorem setRobinHeatFluxToSolidSolver_without_MPI_raises:
  "setRobinHeatFluxToSolidSolver (robin_ip None) [300, 310] 0
     = Inl (TypeError ''cannot multiply sequence by non-int of type float'')"
  by (simp add: setRobinHeatFluxToSolidSolver_def robin_ip_simps np_sub_def times_tuple_def)

lemma setRobinHeatFluxToSolidSolver_with_MPI:
  "setRobinHeatFluxToSolidSolver (robin_ip (Some \<lparr>Get_rank = 0, Get_size = 1\<rparr>)) [300, 310] 0
     = Inr [ApplyNodalNormalHeatFluxes (PyArray [10, 15]) 0]"
  by (simp add: setRobinHeatFluxToSolidSolver_def robin_ip_simps np_sub_def times_array_def
      redistributeDataToSolidSolver_def manager0_def)

lemma setRobinHeatFluxToSolidSolver_without_MPI_never_array:
  "mpiComm_ip ip = None \<Longrightarrow>
   setRobinHeatFluxToSolidSolver ip T t \<noteq> Inr [ApplyNodalNormalHeatFluxes (PyArray flux) t']"
  by (auto simp: setRobinHeatFluxToSolidSolver_def split: option.splits list.splits sum.splits)

lemma setRobinHeatFluxToSolidSolver_with_MPI_flux:
  assumes "mpiComm_ip ip = Some comm"
      and "myid_ip ip \<in> set (getSolidInterfaceProcessors (manager_ip ip))"
      and "solidInterfaceRobinTemperature ip = Some robin"
      and "redistributeDataToSolidSolver ip robin = T_robin # rest"
      and "length T = length T_robin"
      and "heatTransferCoeff ip = Some (PyFloat h)"
  shows "setRobinHeatFluxToSolidSolver ip T t
     = Inr [ApplyNodalNormalHeatFluxes (PyArray (map (\<lambda>x. h * x) (map2 (-) T T_robin))) t]"
  using assms by (simp add: setRobinHeatFluxToSolidSolver_def np_sub_def times_array_def)

subsection \<open>Relaxation\<close>

definition norm_square :: "field \<Rightarrow> real" where
  "norm_square f = sum_list (map (\<lambda>col. column_dot col col) f)"

lemma column_dot_self_nonneg: "0 \<le> column_dot x x"
  unfolding column_dot_def by (induction x) auto

lemma sum_norm_squares: "sum_list (map (\<lambda>n. n ^ 2) (field_norm f)) = norm_square f"
  unfolding field_norm_def norm_square_def
  by (induction f) (simp_all add: column_dot_self_nonneg)

lemma AlgorithmBGSAitkenRelax_init_omegaMin:
  "omegaMin (AlgorithmBGSAitkenRelax_init Manager ip nbIterMax dt tTot treshold omMax mpiComm) \<le> 1"
  by (simp add: AlgorithmBGSAitkenRelax_init_def AlgorithmBGSStaticRelax_init_def Algorithm_init_def)

text \<open>
  C1: in a sub-iteration after the first, with \<open>dr\<close> the current residual minus the
  previous one, \<open>setOmega\<close> of the Aitken class multiplies \<open>omega\<close> by
  \<open>- (dr . r_prev) / |dr|^2\<close> and clamps the product to \<open>[omegaMin, 1]\<close> when
  \<open>|dr|^2\<close> is not zero, and sets \<open>omega\<close> to \<open>omegaMin\<close> when it is zero. The
  constructor sets \<open>omegaMin\<close> to \<open>1e-12\<close>, below 1.
\<close>

theorem setOmega_Aitken_formula:
  assumes "FSIIter s \<noteq> 0" and "omegaMin s \<le> 1"
  shows "omega (setOmega_Aitken s) =
    (let dr = field_sub (solidInterfaceResidual s) (solidInterfaceResidualkM1 s) in
     if norm_square dr \<noteq> 0
     then max (omegaMin s)
            (min 1 (omega s * (- sum_list (field_dot dr (solidInterfaceResidualkM1 s)) / norm_square dr)))
     else omegaMin s)"
  using assms
  by (simp add: setOmega_Aitken_def Let_def sum_norm_squares max_def min_def)

definition aitken_state :: algorithm where
  "aitken_state =
    (AlgorithmBGSAitkenRelax_init manager0
       (snd (projr (MatchingMeshesInterpolator_init manager0 None None (PyFloat 1)))) 10 1 10 (-1) 1 None)
      \<lparr> FSIIter := 1,
        solidInterfaceResidual := [[1, 0], [0, 0], [0, 0]],
        solidInterfaceResidualkM1 := [[3, 0], [0, 0], [0, 0]] \<rparr>"

theorem setOmega_Aitken_formula_witness:
  "FSIIter aitken_state \<noteq> 0 \<and> omegaMin aitken_state \<le> 1 \<and> omega (setOmega_Aitken aitken_state) = 1
   \<and> omega (setOmega_Aitken (aitken_state\<lparr>omega := 1 / 2\<rparr>)) = 3 / 4
   \<and> omega (setOmega_Aitken (aitken_state\<lparr>solidInterfaceResidual := [[3, 0], [0, 0], [0, 0]]\<rparr>))
       = 1 / 10 ^ 12"
proof -
  have st: "FSIIter aitken_state = 1" "omegaMin aitken_state = 1 / 10 ^ 12" "omega aitken_state = 1"
    "solidInterfaceResidual aitken_state = [[1, 0], [0, 0], [0, 0]]"
    "solidInterfaceResidualkM1 aitken_state = [[3, 0], [0, 0], [0, 0]]"
    by (simp_all add: aitken_state_def AlgorithmBGSAitkenRelax_init_def
        AlgorithmBGSStaticRelax_init_def Algorithm_init_def)
  have h1: "FSIIter aitken_state \<noteq> 0" and h2: "omegaMin aitken_state \<le> 1"
    by (simp_all add: st)
  have h1': "FSIIter (aitken_state\<lparr>omega := 1 / 2\<rparr>) \<noteq> 0"
    and h2': "omegaMin (aitken_state\<lparr>omega := 1 / 2\<rparr>) \<le> 1"
    by (simp_all add: st)
  have h1'': "FSIIter (aitken_state\<lparr>solidInterfaceResidual := [[3, 0], [0, 0], [0, 0]]\<rparr>) \<noteq> 0"
    and h2'': "omegaMin (aitken_state\<lparr>solidInterfaceResidual := [[3, 0], [0, 0], [0, 0]]\<rparr>) \<le> 1"
    by (simp_all add: st)
  show ?thesis
    using h1 h2 setOmega_Aitken_formula [OF h1 h2] setOmega_Aitken_formula [OF h1' h2']
      setOmega_Aitken_formula [OF h1'' h2'']
    by (simp add: st Let_def field_sub_def field_dot_def column_dot_def norm_square_def)
qed

text \<open>
  C10: \<open>relaxCHT\<close> adds the thermal residual with the coefficient 1 whatever \<open>omega\<close> is:
  the heat flux for the methods \<open>hFFB\<close> and \<open>TFFB\<close>, the temperature for \<open>hFTB\<close> and
  \<open>FFTB\<close>. \<open>relaxSolidPosition\<close> adds \<open>omega\<close> times the mechanical residual.
\<close>

lemma field_scale_one [simp]: "field_scale 1 f = f"
  by (simp add: field_scale_def map_idI)

lemma setOmega_Aitken_keeps:
  "interfaceInterpolator (setOmega_Aitken s) = interfaceInterpolator s"
  "solidInterfaceResidual (setOmega_Aitken s) = solidInterfaceResidual s"
  by (simp_all add: setOmega_Aitken_def Let_def)

lemma setOmega_keeps:
  "interfaceInterpolator (setOmega s) = interfaceInterpolator s"
  "solidInterfaceResidual (setOmega s) = solidInterfaceResidual s"
  by (simp_all add: setOmega_def setOmega_static_def setOmega_Aitken_keeps split: algo_kind.splits)

theorem relaxCHT_adds_full_residual:
  "(chtTransferMethod (interfaceInterpolator s) \<in> {Some ''hFFB'', Some ''TFFB''} \<longrightarrow>
      solidInterfaceHeatFlux (interfaceInterpolator s) = Some q \<longrightarrow>
      solidHeatFluxResidual s = Some r \<longrightarrow>
      relaxCHT (s\<lparr>omega := w\<rparr>) =
        Returned (s\<lparr>omega := w, interfaceInterpolator :=
          (interfaceInterpolator s)\<lparr>solidInterfaceHeatFlux := Some (field_add q (field_scale 1 r))\<rparr>\<rparr>))
   \<and> (chtTransferMethod (interfaceInterpolator s) \<in> {Some ''hFTB'', Some ''FFTB''} \<longrightarrow>
      solidInterfaceTemperature (interfaceInterpolator s) = Some q \<longrightarrow>
      solidTemperatureResidual s = Some r \<longrightarrow>
      relaxCHT (s\<lparr>omega := w\<rparr>) =
        Returned (s\<lparr>omega := w, interfaceInterpolator :=
          (interfaceInterpolator s)\<lparr>solidInterfaceTemperature := Some (field_add q (field_scale 1 r))\<rparr>\<rparr>))
   \<and> (solidInterfaceDisplacement (interfaceInterpolator s) = Some u \<longrightarrow>
      relaxSolidPosition s =
        Returned ((setOmega s)\<lparr>interfaceInterpolator :=
          (interfaceInterpolator s)\<lparr>solidInterfaceDisplacement :=
             Some (field_add u (field_scale (omega (setOmega s)) (solidInterfaceResidual s)))\<rparr>\<rparr>))"
proof (intro conjI impI)
  assume "chtTransferMethod (interfaceInterpolator s) \<in> {Some ''hFFB'', Some ''TFFB''}"
    and "solidInterfaceHeatFlux (interfaceInterpolator s) = Some q"
    and "solidHeatFluxResidual s = Some r"
  then show "relaxCHT (s\<lparr>omega := w\<rparr>) =
        Returned (s\<lparr>omega := w, interfaceInterpolator :=
          (interfaceInterpolator s)\<lparr>solidInterfaceHeatFlux := Some (field_add q (field_scale 1 r))\<rparr>\<rparr>)"
    by (auto simp: relaxCHT_def field_iadd_def Let_def)
next
  assume "chtTransferMethod (interfaceInterpolator s) \<in> {Some ''hFTB'', Some ''FFTB''}"
    and "solidInterfaceTemperature (interfaceInterpolator s) = Some q"
    and "solidTemperatureResidual s = Some r"
  then show "relaxCHT (s\<lparr>omega := w\<rparr>) =
        Returned (s\<lparr>omega := w, interfaceInterpolator :=
          (interfaceInterpolator s)\<lparr>solidInterfaceTemperature := Some (field_add q (field_scale 1 r))\<rparr>\<rparr>)"
    by (auto simp: relaxCHT_def field_iadd_def Let_def)
next
  assume "solidInterfaceDisplacement (interfaceInterpolator s) = Some u"
  then show "relaxSolidPosition s =
        Returned ((setOmega s)\<lparr>interfaceInterpolator :=
          (interfaceInterpolator s)\<lparr>solidInterfaceDisplacement :=
             Some (field_add u (field_scale (omega (setOmega s)) (solidInterfaceResidual s)))\<rparr>\<rparr>)"
    by (simp add: relaxSolidPosition_def field_iadd_def Let_def setOmega_keeps)
qed

text \<open>
  A static BGS algorithm with \<open>omegaMax = 1/2\<close> on the matching meshes of \<open>manager0\<close> with a
  thermal transfer method, a residual in each channel and a heat flux and temperature on
  the solid interface.
\<close>

definition cht_state :: "string \<Rightarrow> algorithm" where
  "cht_state m =
    (let ip = snd (projr (MatchingMeshesInterpolator_init manager0 None (Some m) (PyFloat 1)));
         ip1 = ip\<lparr> solidInterfaceHeatFlux := Some [[5, 5], [0, 0], [0, 0]],
                   solidInterfaceTemperature := Some [[300, 310]] \<rparr>
     in (AlgorithmBGSStaticRelax_init manager0 ip1 10 1 10 (-1) (1 / 2) None)
          \<lparr> solidInterfaceResidual := [[2, 4], [0, 0], [0, 0]],
            solidHeatFluxResidual := Some [[1, 2], [0, 0], [0, 0]],
            solidTemperatureResidual := Some [[1, 2]] \<rparr>)"

lemma cht_state_simps:
  "chtTransferMethod (interfaceInterpolator (cht_state ''TFFB'')) = Some ''TFFB''"
  "chtTransferMethod (interfaceInterpolator (cht_state ''FFTB'')) = Some ''FFTB''"
  "solidInterfaceHeatFlux (interfaceInterpolator (cht_state m)) = Some [[5, 5], [0, 0], [0, 0]]"
  "solidInterfaceTemperature (interfaceInterpolator (cht_state m)) = Some [[300, 310]]"
  "solidInterfaceDisplacement (interfaceInterpolator (cht_state m)) = Some [[0, 0], [0, 0], [0, 0]]"
  "solidInterfaceResidual (cht_state m) = [[2, 4], [0, 0], [0, 0]]"
  "solidHeatFluxResidual (cht_state m) = Some [[1, 2], [0, 0], [0, 0]]"
  "solidTemperatureResidual (cht_state m) = Some [[1, 2]]"
  "kind (cht_state m) = BGSStaticRelax"
  "omegaMax (cht_state m) = 1 / 2"
  by (simp_all add: cht_state_def MatchingMeshesInterpolator_init_def InterfaceInterpolator_init_def
      generateInterfaceData_matching_def manager0_def cht_methods_def Let_def
      AlgorithmBGSStaticRelax_init_def Algorithm_init_def FlexInterfaceData_def
      numeral_2_eq_2 numeral_3_eq_3)

theorem relaxCHT_adds_full_residual_witness:
  "chtTransferMethod (interfaceInterpolator (cht_state ''TFFB'')) \<in> {Some ''hFFB'', Some ''TFFB''}
   \<and> relaxCHT ((cht_state ''TFFB'')\<lparr>omega := 1 / 4\<rparr>) =
        Returned ((cht_state ''TFFB'')\<lparr>omega := 1 / 4, interfaceInterpolator :=
          (interfaceInterpolator (cht_state ''TFFB''))
            \<lparr>solidInterfaceHeatFlux := Some [[6, 7], [0, 0], [0, 0]]\<rparr>\<rparr>)
   \<and> chtTransferMethod (interfaceInterpolator (cht_state ''FFTB'')) \<in> {Some ''hFTB'', Some ''FFTB''}
   \<and> relaxCHT ((cht_state ''FFTB'')\<lparr>omega := 1 / 4\<rparr>) =
        Returned ((cht_state ''FFTB'')\<lparr>omega := 1 / 4, interfaceInterpolator :=
          (interfaceInterpolator (cht_state ''FFTB''))
            \<lparr>solidInterfaceTemperature := Some [[301, 312]]\<rparr>\<rparr>)
   \<and> relaxSolidPosition (cht_state ''TFFB'') =
        Returned ((setOmega (cht_state ''TFFB''))\<lparr>interfaceInterpolator :=
          (interfaceInterpolator (cht_state ''TFFB''))
            \<lparr>solidInterfaceDisplacement := Some [[1, 2], [0, 0], [0, 0]]\<rparr>\<rparr>)"
  using relaxCHT_adds_full_residual
          [of "cht_state ''TFFB''" "[[5, 5], [0, 0], [0, 0]]" "[[1, 2], [0, 0], [0, 0]]" "1 / 4"
              "[[0, 0], [0, 0], [0, 0]]"]
        relaxCHT_adds_full_residual
          [of "cht_state ''FFTB''" "[[300, 310]]" "[[1, 2]]" "1 / 4" "[[0, 0], [0, 0], [0, 0]]"]
  by (simp add: cht_state_simps field_add_def field_scale_def setOmega_def setOmega_static_def)

subsection \<open>The BGS loop\<close>

text \<open>The loop body run \<open>n\<close> times in a row, whatever the loop condition says.\<close>

fun BGS_iter :: "collaborators \<Rightarrow> nat \<Rightarrow> algorithm \<Rightarrow> algorithm outcome" where
  "BGS_iter c 0 s = Returned s"
| "BGS_iter c (Suc n) s = and_then (BGS_iter c n s) (BGS_body c)"

text \<open>The criterion reports verified on the error values of a state that was reached.\<close>

definition verified :: "collaborators \<Rightarrow> algorithm outcome \<Rightarrow> bool" where
  "verified c r =
    (case r of
       Returned s \<Rightarrow> isVerified c (errValue s) (errValue_CHT s)
     | Raised e s \<Rightarrow> False)"

definition conv_ok :: "collaborators \<Rightarrow> algorithm \<Rightarrow> bool" where
  "conv_ok c s = (FSIConv s = isVerified c (errValue s) (errValue_CHT s))"

lemma conv_ok_BGS_finish [simp]: "conv_ok c (BGS_finish s) = conv_ok c s"
  by (simp add: conv_ok_def BGS_finish_def Let_def emit_def writeRealTimeData_def)

lemma setOmega_Aitken_conv:
  "FSIConv (setOmega_Aitken s) = FSIConv s"
  "errValue (setOmega_Aitken s) = errValue s"
  "errValue_CHT (setOmega_Aitken s) = errValue_CHT s"
  by (simp_all add: setOmega_Aitken_def Let_def)

lemma conv_ok_setOmega [simp]: "conv_ok c (setOmega s) = conv_ok c s"
  by (simp add: conv_ok_def setOmega_def setOmega_static_def setOmega_Aitken_conv
      split: algo_kind.splits)

lemma conv_ok_relaxSolidPosition:
  "relaxSolidPosition s = Returned s' \<Longrightarrow> conv_ok c s' = conv_ok c s"
proof -
  assume a: "relaxSolidPosition s = Returned s'"
  have "conv_ok c s' = conv_ok c (setOmega s)"
    using a by (auto simp: relaxSolidPosition_def Let_def conv_ok_def split: sum.splits)
  then show ?thesis by simp
qed

lemma conv_ok_relaxCHT: "relaxCHT s = Returned s' \<Longrightarrow> conv_ok c s' = conv_ok c s"
  by (auto simp: relaxCHT_def Let_def conv_ok_def split: sum.splits if_splits)

lemma conv_ok_BGS_solid_part:
  assumes "BGS_solid_part c s = Returned s'"
  shows "conv_ok c s'"
proof -
  from assms obtain s7 s9 where
    h9: "relaxSolidPosition (s7\<lparr>FSIConv := isVerified c (errValue s7) (errValue_CHT s7)\<rparr>) = Returned s9" and
    h10: "(if withCht (manager s9) then relaxCHT s9 else Returned s9) = Returned s'"
    unfolding BGS_solid_part_def by (blast dest: and_then_Returned)
  have "conv_ok c (s7\<lparr>FSIConv := isVerified c (errValue s7) (errValue_CHT s7)\<rparr>)"
    by (simp add: conv_ok_def)
  then have "conv_ok c s9"
    using h9 by (simp add: conv_ok_relaxSolidPosition)
  then show ?thesis
    using h10 by (auto dest: conv_ok_relaxCHT [of _ _ c] split: if_splits)
qed

lemma conv_ok_BGS_body:
  assumes "BGS_body c s = Returned s'" and "int (timeIter s) > timeIterTreshold s"
  shows "conv_ok c s'"
proof -
  from assms(1) obtain s3 s4 where
    h3: "BGS_fluid_part c s = Returned s3" and
    h4: "(if int (timeIter s3) > timeIterTreshold s3 then BGS_solid_part c s3 else Returned s3) = Returned s4" and
    h5: "s' = BGS_finish s4"
    unfolding BGS_body_def by (auto dest!: and_then_Returned)
  have "cfg s3 = cfg s" using h3 by (auto dest: ctl_BGS_fluid_part cfg_of_ctl)
  then have "int (timeIter s3) > timeIterTreshold s3"
    using assms(2) cfg_fields(5,6) [of s3 s] by simp
  then have "BGS_solid_part c s3 = Returned s4" using h4 by simp
  then have "conv_ok c s4" by (rule conv_ok_BGS_solid_part)
  then show ?thesis using h5 by simp
qed

lemma BGS_iter_prefix:
  "BGS_iter c n s = Returned sn \<Longrightarrow> j \<le> n \<Longrightarrow> \<exists>sj. BGS_iter c j s = Returned sj"
proof (induction n arbitrary: sn)
  case 0
  then show ?case by simp
next
  case (Suc n)
  from Suc.prems(1) obtain sm where m: "BGS_iter c n s = Returned sm"
    by (auto dest: and_then_Returned)
  show ?case
  proof (cases "j = Suc n")
    case True
    then show ?thesis using Suc.prems(1) by blast
  next
    case False
    then have "j \<le> n" using Suc.prems(2) by simp
    then show ?thesis using Suc.IH [OF m] by blast
  qed
qed

lemma BGS_iter_facts:
  "BGS_iter c n s = Returned sn \<Longrightarrow>
     FSIIter sn = FSIIter s + n \<and> cfg sn = cfg s"
proof (induction n arbitrary: sn)
  case 0
  then show ?case by simp
next
  case (Suc n)
  from Suc.prems obtain sm where m: "BGS_iter c n s = Returned sm" and b: "BGS_body c sm = Returned sn"
    by (auto dest: and_then_Returned)
  from Suc.IH [OF m] FSIIter_BGS_body [OF b] cfg_BGS_body [OF b]
  show ?case by simp
qed

lemma BGS_iter_conv_ok:
  assumes "BGS_iter c (Suc n) s = Returned sn" and "int (timeIter s) > timeIterTreshold s"
  shows "conv_ok c sn"
proof -
  from assms(1) obtain sm where m: "BGS_iter c n s = Returned sm" and b: "BGS_body c sm = Returned sn"
    by (auto dest: and_then_Returned)
  from BGS_iter_facts [OF m] assms(2) cfg_fields(5,6) [of sm s]
  have "int (timeIter sm) > timeIterTreshold sm"
    by simp
  with b show ?thesis by (rule conv_ok_BGS_body)
qed

text \<open>
  While the loop condition holds at every state reached by fewer than \<open>n\<close> bodies, the
  loop from the start is the loop from the state after \<open>n\<close> bodies.
\<close>

lemma BGS_loop_unroll:
  assumes "BGS_iter c n s = Returned sn"
      and "\<forall>j<n. \<forall>sj. BGS_iter c j s = Returned sj \<longrightarrow>
             int (FSIIter sj) < nb \<and> \<not> isVerified c (errValue sj) (errValue_CHT sj)"
  shows "BGS_loop c nb s = BGS_loop c nb sn"
  using assms
proof (induction n arbitrary: sn)
  case 0
  then show ?case by simp
next
  case (Suc n)
  from Suc.prems(1) obtain sm where m: "BGS_iter c n s = Returned sm" and b: "BGS_body c sm = Returned sn"
    by (auto dest: and_then_Returned)
  have "\<forall>j<n. \<forall>sj. BGS_iter c j s = Returned sj \<longrightarrow>
             int (FSIIter sj) < nb \<and> \<not> isVerified c (errValue sj) (errValue_CHT sj)"
    using Suc.prems(2) by (meson less_SucI)
  then have "BGS_loop c nb s = BGS_loop c nb sm"
    by (rule Suc.IH [OF m])
  moreover have "int (FSIIter sm) < nb \<and> \<not> isVerified c (errValue sm) (errValue_CHT sm)"
    using Suc.prems(2) m by blast
  then have "BGS_loop c nb sm = BGS_loop c nb sn"
    using b by (subst BGS_loop.simps) simp
  ultimately show ?case by simp
qed

lemma BGS_enter_facts:
  "FSIIter (BGS_enter s) = 0" "FSIConv (BGS_enter s) = False"
  by (simp_all add: BGS_enter_def emit_def)

lemma BGS_exit_facts:
  "FSIIter (BGS_exit s) = FSIIter s" "FSIConv (BGS_exit s) = FSIConv s"
  by (simp_all add: BGS_exit_def emit_def)

text \<open>
  C5, amended: let \<open>timeIter\<close> be above the threshold. If the criterion is not verified
  on the error values after fewer than \<open>k\<close> sub-iterations and is verified after \<open>k\<close>
  sub-iterations (for \<open>k = 0\<close>: on the initial error values), then \<open>fsiCoupling\<close> returns
  after running the loop body \<open>k\<close> times when \<open>k\<close> is at most the cap \<open>nbFSIIterMax\<close>,
  and \<open>nbFSIIterMax\<close> times otherwise (no time for a negative cap); \<open>FSIIter\<close> is that
  number, and \<open>FSIConv\<close> is true exactly when \<open>1 \<le> k\<close> and \<open>k\<close> is at most the cap.
\<close>

theorem BGS_fsiCoupling_iterations:
  assumes above: "int (timeIter s) > timeIterTreshold s"
      and before: "\<forall>j<k. \<not> verified c (BGS_iter c j (BGS_enter s))"
      and at_k: "verified c (BGS_iter c k (BGS_enter s))"
  shows "\<exists>sn. BGS_iter c (if int k \<le> nbFSIIterMax s then k else nat (nbFSIIterMax s)) (BGS_enter s)
                = Returned sn
           \<and> BGS_fsiCoupling c s = Returned (BGS_exit sn)
           \<and> FSIIter (BGS_exit sn) = (if int k \<le> nbFSIIterMax s then k else nat (nbFSIIterMax s))
           \<and> (FSIConv (BGS_exit sn) \<longleftrightarrow> 1 \<le> k \<and> int k \<le> nbFSIIterMax s)"
proof -
  define n where "n = (if int k \<le> nbFSIIterMax s then k else nat (nbFSIIterMax s))"
  define s0 where "s0 = BGS_enter s"
  have nb: "nbFSIIter_of s = nbFSIIterMax s"
    using above by (simp add: nbFSIIter_of_def)
  have nk: "n \<le> k" by (auto simp: n_def)
  have ncap: "int j < nbFSIIterMax s" if "j < n" for j
    using that by (auto simp: n_def split: if_splits)
  from at_k obtain sk where sk: "BGS_iter c k s0 = Returned sk"
    by (auto simp: verified_def s0_def split: outcome.splits)
  from BGS_iter_prefix [OF sk nk] obtain sn where sn: "BGS_iter c n s0 = Returned sn"
    by blast
  have above0: "int (timeIter s0) > timeIterTreshold s0"
    using above cfg_fields(5,6) [of "BGS_enter s" s] by (simp add: s0_def)
  have fsn: "FSIIter sn = n"
    using BGS_iter_facts [OF sn] by (simp add: s0_def BGS_enter_facts)
  have cond: "\<forall>j<n. \<forall>sj. BGS_iter c j s0 = Returned sj \<longrightarrow>
             int (FSIIter sj) < nbFSIIterMax s \<and> \<not> isVerified c (errValue sj) (errValue_CHT sj)"
  proof (intro allI impI)
    fix j sj
    assume j: "j < n" and sj: "BGS_iter c j s0 = Returned sj"
    have "FSIIter sj = j"
      using BGS_iter_facts [OF sj] by (simp add: s0_def BGS_enter_facts)
    moreover have "\<not> verified c (BGS_iter c j s0)"
      using before j nk by (simp add: s0_def)
    ultimately show "int (FSIIter sj) < nbFSIIterMax s \<and> \<not> isVerified c (errValue sj) (errValue_CHT sj)"
      using ncap [OF j] sj by (simp add: verified_def)
  qed
  have "BGS_loop c (nbFSIIterMax s) s0 = BGS_loop c (nbFSIIterMax s) sn"
    using BGS_loop_unroll [OF sn cond] .
  moreover have stop: "\<not> (int (FSIIter sn) < nbFSIIterMax s \<and> \<not> isVerified c (errValue sn) (errValue_CHT sn))"
  proof (cases "int k \<le> nbFSIIterMax s")
    case True
    then have "n = k" by (simp add: n_def)
    then show ?thesis using at_k sn by (simp add: verified_def s0_def)
  next
    case False
    then have "int n \<ge> nbFSIIterMax s" by (simp add: n_def)
    then show ?thesis using fsn by simp
  qed
  then have "BGS_loop c (nbFSIIterMax s) sn = Returned sn"
    by (subst BGS_loop.simps) auto
  ultimately have loop: "BGS_loop c (nbFSIIter_of s) (BGS_enter s) = Returned sn"
    by (simp add: nb s0_def)
  have conv: "FSIConv sn \<longleftrightarrow> 1 \<le> k \<and> int k \<le> nbFSIIterMax s"
  proof (cases n)
    case 0
    then have "sn = s0" using sn by simp
    moreover have "\<not> (1 \<le> k \<and> int k \<le> nbFSIIterMax s)"
      using 0 by (auto simp: n_def split: if_splits)
    ultimately show ?thesis by (simp add: s0_def BGS_enter_facts)
  next
    case (Suc m)
    then have "conv_ok c sn" using sn above0 BGS_iter_conv_ok by blast
    then have fc: "FSIConv sn = verified c (BGS_iter c n s0)"
      using sn by (simp add: conv_ok_def verified_def)
    show ?thesis
    proof (cases "int k \<le> nbFSIIterMax s")
      case True
      then have "n = k" by (simp add: n_def)
      then show ?thesis using fc at_k True Suc by (simp add: s0_def)
    next
      case False
      then have "n < k" using Suc by (auto simp: n_def)
      then show ?thesis using fc before False by (simp add: s0_def)
    qed
  qed
  show ?thesis
    using sn loop fsn conv
    by (simp add: BGS_fsiCoupling_def and_then_def BGS_exit_facts n_def s0_def)
qed

text \<open>
  A run for the witness: matching meshes of two nodes without CHT, static relaxation with
  \<open>omega = 1/2\<close>, a solid solver that always predicts the displacement 4 at the first
  node, and a criterion that takes the sum of the absolute residuals as error value and
  is verified when it is at most 2.
\<close>

definition manager_fsi :: manager where
  "manager_fsi = manager0\<lparr>withCht := False\<rparr>"

definition ip_fsi :: interpolator where
  "ip_fsi = snd (projr (MatchingMeshesInterpolator_init manager_fsi None None (PyFloat 1)))"

definition c0 :: collaborators where
  "c0 =
    \<lparr> isVerified = (\<lambda>e t. e \<le> 2),
      isVerified1 = (\<lambda>e. e \<le> 2),
      criterion_update = (\<lambda>f. sum_list (map abs (concat f))),
      criterion_updateHeatFlux = (\<lambda>r. 0),
      FluidSolver_run = (\<lambda>t k. None),
      predictedDisplacement = (\<lambda>t k. [[4, 0], [0, 0], [0, 0]]),
      predictedHF = (\<lambda>t k. []),
      predictedTemp = (\<lambda>t k. []),
      getNodalTemperatures = (\<lambda>t k. []),
      interpolatedRobinTemperature = (\<lambda>t k. []),
      getNodalVelocity = (\<lambda>t. [[0, 0], [0, 0], [0, 0]]),
      getNodalVelocityNm1 = (\<lambda>t. [[0, 0], [0, 0], [0, 0]]),
      qrNumerics = (\<lambda>name Vm Wm r. ([], Wm)),
      lstsq = (\<lambda>Vm r. []),
      displacementFromSolidSolver = (\<lambda>f. [[0, 0], [0, 0], [0, 0]]),
      float_div = (\<lambda>x y. x / y),
      float_sub = (\<lambda>x y. x - y) \<rparr>"

definition bgs0 :: "int \<Rightarrow> algorithm" where
  "bgs0 cap = AlgorithmBGSStaticRelax_init manager_fsi ip_fsi cap 1 10 (- 1) (1 / 2) None"

definition bgs_inv :: "real \<Rightarrow> real \<Rightarrow> algorithm \<Rightarrow> bool" where
  "bgs_inv x e s \<longleftrightarrow>
     manager s = manager_fsi \<and> kind s = BGSStaticRelax \<and> timeIter s = 0 \<and>
     timeIterTreshold s = - 1 \<and> myid s = 0 \<and> \<not> writeInFSIloop s \<and> omegaMax s = 1 / 2 \<and>
     solidInterfaceDisplacement (interfaceInterpolator s) = Some [[x, 0], [0, 0], [0, 0]] \<and>
     errValue s = e \<and> errValue_CHT s = 10 ^ 6"

lemma manager_fsi_simps:
  "withCht manager_fsi = False" "withFsi manager_fsi = True"
  "computationType manager_fsi = ''unsteady''" "getSolidSolverProcessors manager_fsi = [0]"
  "getNumberOfFluidInterfaceNodes manager_fsi = 2" "getNumberOfSolidInterfaceNodes manager_fsi = 2"
  "getnDim manager_fsi = 3"
  by (simp_all add: manager_fsi_def manager0_def)

lemma ip_fsi_simps:
  "solidInterfaceDisplacement ip_fsi = Some [[0, 0], [0, 0], [0, 0]]"
  "ns ip_fsi = 2" "d ip_fsi = 0" "chtTransferMethod ip_fsi = None"
  by (simp_all add: ip_fsi_def MatchingMeshesInterpolator_init_def InterfaceInterpolator_init_def
      generateInterfaceData_matching_def manager_fsi_simps Let_def FlexInterfaceData_def
      numeral_2_eq_2 numeral_3_eq_3)

lemma bgs0_simps:
  "manager (bgs0 cap) = manager_fsi" "kind (bgs0 cap) = BGSStaticRelax" "timeIter (bgs0 cap) = 0"
  "timeIterTreshold (bgs0 cap) = - 1" "myid (bgs0 cap) = 0" "writeInFSIloop (bgs0 cap) = False"
  "omegaMax (bgs0 cap) = 1 / 2" "interfaceInterpolator (bgs0 cap) = ip_fsi"
  "nbFSIIterMax (bgs0 cap) = cap"
  by (simp_all add: bgs0_def AlgorithmBGSStaticRelax_init_def Algorithm_init_def)

lemma bgs_inv_enter: "bgs_inv 0 (10 ^ 12) (BGS_enter (bgs0 cap))"
  by (simp add: bgs_inv_def BGS_enter_def emit_def bgs0_simps ip_fsi_simps)

lemma bgs_inv_body:
  assumes "bgs_inv x e s" and "x \<le> 4"
  shows "\<exists>s'. BGS_body c0 s = Returned s' \<and> bgs_inv (x + (4 - x) / 2) (4 - x) s'"
  using assms
  by (simp add: bgs_inv_def BGS_body_def BGS_fluid_part_def BGS_solid_part_def BGS_finish_def
      FluidSolver_run_step_def SolidSolver_run_step_def computeSolidInterfaceResidual_def
      relaxSolidPosition_def setOmega_def setOmega_static_def field_iadd_def field_osub_def
      field_sub_def field_add_def field_scale_def emit_def and_then_def c0_def
      manager_fsi_simps Let_def)

lemma bgs_iter_1: "\<exists>s1. BGS_iter c0 1 (BGS_enter (bgs0 cap)) = Returned s1 \<and> bgs_inv 2 4 s1"
  using bgs_inv_body [OF bgs_inv_enter [of cap]] by (simp add: and_then_def)

lemma bgs_iter_2: "\<exists>s2. BGS_iter c0 2 (BGS_enter (bgs0 cap)) = Returned s2 \<and> bgs_inv 3 2 s2"
proof -
  from bgs_iter_1 obtain s1 where s1: "BGS_iter c0 1 (BGS_enter (bgs0 cap)) = Returned s1"
    and i1: "bgs_inv 2 4 s1" by blast
  from bgs_inv_body [OF i1] obtain s2 where "BGS_body c0 s1 = Returned s2" and "bgs_inv 3 2 s2"
    by auto
  then show ?thesis using s1 by (simp add: numeral_2_eq_2 and_then_def)
qed

lemma verified_bgs_inv: "bgs_inv x e s \<Longrightarrow> verified c0 (Returned s) = (e \<le> 2)"
  by (simp add: verified_def bgs_inv_def c0_def)

theorem BGS_fsiCoupling_iterations_witness:
  "int (timeIter (bgs0 5)) > timeIterTreshold (bgs0 5)
   \<and> \<not> verified c0 (BGS_iter c0 0 (BGS_enter (bgs0 5)))
   \<and> \<not> verified c0 (BGS_iter c0 1 (BGS_enter (bgs0 5)))
   \<and> verified c0 (BGS_iter c0 2 (BGS_enter (bgs0 5)))
   \<and> (\<exists>sn. BGS_fsiCoupling c0 (bgs0 5) = Returned (BGS_exit sn)
          \<and> FSIIter (BGS_exit sn) = 2 \<and> FSIConv (BGS_exit sn))
   \<and> (\<exists>sn. BGS_fsiCoupling c0 (bgs0 1) = Returned (BGS_exit sn)
          \<and> FSIIter (BGS_exit sn) = 1 \<and> \<not> FSIConv (BGS_exit sn))"
proof -
  have above: "int (timeIter (bgs0 cap)) > timeIterTreshold (bgs0 cap)" for cap
    by (simp add: bgs0_simps)
  have v0: "\<not> verified c0 (BGS_iter c0 0 (BGS_enter (bgs0 cap)))" for cap
    using verified_bgs_inv [OF bgs_inv_enter [of cap]] by simp
  have v1: "\<not> verified c0 (BGS_iter c0 1 (BGS_enter (bgs0 cap)))" for cap
    using bgs_iter_1 [of cap] verified_bgs_inv by fastforce
  have v2: "verified c0 (BGS_iter c0 2 (BGS_enter (bgs0 cap)))" for cap
    using bgs_iter_2 [of cap] verified_bgs_inv by fastforce
  have before: "\<forall>j<2. \<not> verified c0 (BGS_iter c0 j (BGS_enter (bgs0 cap)))" for cap
    using v0 [of cap] v1 [of cap] by (auto simp: less_Suc_eq numeral_2_eq_2)
  from BGS_fsiCoupling_iterations [OF above before v2, of 5]
  have r5: "\<exists>sn. BGS_fsiCoupling c0 (bgs0 5) = Returned (BGS_exit sn)
          \<and> FSIIter (BGS_exit sn) = 2 \<and> FSIConv (BGS_exit sn)"
    by (auto simp: bgs0_simps)
  from BGS_fsiCoupling_iterations [OF above before v2, of 1]
  have r1: "\<exists>sn. BGS_fsiCoupling c0 (bgs0 1) = Returned (BGS_exit sn)
          \<and> FSIIter (BGS_exit sn) = 1 \<and> \<not> FSIConv (BGS_exit sn)"
    by (auto simp: bgs0_simps)
  show ?thesis
    using above [of 5] v0 [of 5] v1 [of 5] v2 [of 5] r5 r1 by blast
qed

text \<open>
  C5 as the spec states it, for \<open>k = 0\<close>: a criterion that is verified on the initial
  error values \<open>1e12\<close> and \<open>1e6\<close> reports verified after no sub-iteration, and 0 is at
  most the cap 5. The loop body is not run, as stated, but \<open>FSIConv\<close> is false on exit:
  it is set to \<open>False\<close> on entry and only assigned in the loop body.
\<close>

definition c_always :: collaborators where
  "c_always = c0\<lparr>isVerified := (\<lambda>e t. True), isVerified1 := (\<lambda>e. True)\<rparr>"

theorem BGS_fsiCoupling_verified_at_start_counterexample:
  "int (timeIter (bgs0 5)) > timeIterTreshold (bgs0 5)
   \<and> verified c_always (BGS_iter c_always 0 (BGS_enter (bgs0 5)))
   \<and> int 0 \<le> nbFSIIterMax (bgs0 5)
   \<and> BGS_fsiCoupling c_always (bgs0 5) = Returned (BGS_exit (BGS_enter (bgs0 5)))
   \<and> FSIIter (BGS_exit (BGS_enter (bgs0 5))) = 0
   \<and> \<not> FSIConv (BGS_exit (BGS_enter (bgs0 5)))"
proof -
  have "BGS_loop c_always (nbFSIIter_of (bgs0 5)) (BGS_enter (bgs0 5)) = Returned (BGS_enter (bgs0 5))"
    by (subst BGS_loop.simps) (simp add: c_always_def)
  then have "BGS_fsiCoupling c_always (bgs0 5) = Returned (BGS_exit (BGS_enter (bgs0 5)))"
    by (simp add: BGS_fsiCoupling_def and_then_def)
  then show ?thesis
    by (simp add: bgs0_simps verified_def c_always_def BGS_exit_facts BGS_enter_facts)
qed

subsection \<open>The run and exceptions\<close>








subsection \<open>The history of IQN-ILS\<close>

lemma IQN_updateHistory_keeps [simp]:
  "FSIIter (IQN_updateHistory nb s l) = FSIIter s"
  "FSIConv (IQN_updateHistory nb s l) = FSIConv s"
  "nbTimeToKeep (IQN_updateHistory nb s l) = nbTimeToKeep s"
  "kind (IQN_updateHistory nb s l) = kind s"
  by (simp_all add: IQN_updateHistory_def Let_def emit_def)

lemma IQN_exit_keeps [simp]:
  "FSIIter (IQN_exit s) = FSIIter s" "FSIConv (IQN_exit s) = FSIConv s"
  "nbTimeToKeep (IQN_exit s) = nbTimeToKeep s" "kind (IQN_exit s) = kind s"
  "V (IQN_exit s) = V s" "W (IQN_exit s) = W s"
  "maxNbOfItReached (IQN_exit s) = maxNbOfItReached s"
  "trace (IQN_exit s) = trace s @ (if int (timeIter s) > timeIterTreshold s
     then [Print ''*************** IQN-ILS is converged ***************''] else [])"
  by (simp_all add: IQN_exit_def emit_def)


definition iqn0 :: "int \<Rightarrow> int \<Rightarrow> algorithm" where
  "iqn0 cap treshold =
    AlgorithmIQN_ILS_init manager_fsi ip_fsi cap 1 10 treshold (1 / 2) 2 False None"

lemma iqn0_simps:
  "manager (iqn0 cap tr) = manager_fsi" "kind (iqn0 cap tr) = IQN_ILS" "timeIter (iqn0 cap tr) = 0"
  "timeIterTreshold (iqn0 cap tr) = tr" "myid (iqn0 cap tr) = 0" "writeInFSIloop (iqn0 cap tr) = False"
  "omegaMax (iqn0 cap tr) = 1 / 2" "interfaceInterpolator (iqn0 cap tr) = ip_fsi"
  "nbFSIIterMax (iqn0 cap tr) = cap" "nbTimeToKeep (iqn0 cap tr) = 2"
  "V (iqn0 cap tr) = []" "W (iqn0 cap tr) = []" "maxNbOfItReached (iqn0 cap tr) = False"
  "convergenceReachedInOneIt (iqn0 cap tr) = False" "aitkenCrit (iqn0 cap tr) = ''max''"
  "omega (iqn0 cap tr) = 1 / 2" "omegaMin (iqn0 cap tr) = 1 / 10 ^ 12"
  "computeTangentMatrixBasedOnFirstIt (iqn0 cap tr) = False"
  "totNbOfFSIIt (iqn0 cap tr) = 0" "deltaT (iqn0 cap tr) = 1"
  "alpha_0 (iqn0 cap tr) = 1" "alpha_1 (iqn0 cap tr) = 1 / 2" "time (iqn0 cap tr) = 0"
  by (simp_all add: iqn0_def AlgorithmIQN_ILS_init_def AlgorithmBGSAitkenRelax_init_def
      AlgorithmBGSStaticRelax_init_def Algorithm_init_def)







text \<open>
  The time steps of an unsteady run: the body of the loop of \<open>__unsteadyRun\<close>, \<open>n\<close> times.
\<close>

primrec timeSteps :: "collaborators \<Rightarrow> nat \<Rightarrow> algorithm \<Rightarrow> algorithm outcome" where
  "timeSteps c 0 s = Returned s"
| "timeSteps c (Suc n) s = and_then (timeSteps c n s) (timeStep c)"

text \<open>
  The invariant between two time steps: the two lists have one length, which is at most
  \<open>nbTimeToKeep\<close> and at most the number of time steps with \<open>timeIter \<ge> 1\<close> made so far.
\<close>

definition hist_inv :: "int \<Rightarrow> algorithm \<Rightarrow> bool" where
  "hist_inv N s \<longleftrightarrow>
     kind s = IQN_ILS \<and> nbTimeToKeep s = N \<and> length (V s) = length (W s) \<and>
     int (length (V s)) \<le> N \<and> length (V s) \<le> timeIter s - 1"

definition hist :: "algorithm \<Rightarrow> algo_kind \<times> int \<times> matrix list \<times> matrix list \<times> nat" where
  "hist s = (kind s, nbTimeToKeep s, V s, W s, timeIter s)"

lemma hist_upd_simps [simp]:
  "hist (s\<lparr>totNbOfFSIIt := k\<rparr>) = hist s"
  "hist (s\<lparr>trace := evs\<rparr>) = hist s"
  "hist (s\<lparr>interfaceInterpolator := ip\<rparr>) = hist s"
  "hist (s\<lparr>time := x\<rparr>) = hist s"
  by (simp_all add: hist_def)

lemma hist_emit [simp]: "hist (emit evs s) = hist s"
  by (simp add: emit_def)

lemma hist_writeRealTimeData [simp]: "hist (writeRealTimeData s) = hist s"
  by (simp add: writeRealTimeData_def)

lemma hist_solidDisplacementPredictor:
  "solidDisplacementPredictor c s = Returned s' \<Longrightarrow> hist s' = hist s"
  by (auto simp: solidDisplacementPredictor_def Let_def split: sum.splits)

lemma IQN_updateHistory_bound:
  assumes "0 < nbTimeToKeep s" and "length (V s) = length (W s)"
      and "int (length (V s)) \<le> nbTimeToKeep s" and "length (V s) \<le> timeIter s - 1"
  shows "length (V (IQN_updateHistory nb s l)) = length (W (IQN_updateHistory nb s l))
     \<and> int (length (V (IQN_updateHistory nb s l))) \<le> nbTimeToKeep s
     \<and> length (V (IQN_updateHistory nb s l)) \<le> timeIter s"
  using assms by (auto simp: IQN_updateHistory_def Let_def emit_def)

lemma hist_inv_fsiCoupling:
  assumes inv: "hist_inv N s" and pos: "0 < N" and ret: "fsiCoupling c s = Returned s'"
  shows "kind s' = IQN_ILS \<and> nbTimeToKeep s' = N \<and> timeIter s' = timeIter s
     \<and> length (V s') = length (W s') \<and> int (length (V s')) \<le> N \<and> length (V s') \<le> timeIter s"
proof -
  from inv have k: "kind s = IQN_ILS" by (simp add: hist_inv_def)
  with ret have "IQN_fsiCoupling c s = Returned s'" by (simp add: fsiCoupling_def)
  from IQN_fsiCoupling_Returned [OF this] obtain s1 l1 where
    c1: "cfg s1 = cfg s" and e: "s' = IQN_exit (IQN_updateHistory (nbFSIIter_of s) s1 l1)"
    by blast
  from cfg_fields [OF c1] inv pos
  have a: "0 < nbTimeToKeep s1" "length (V s1) = length (W s1)"
    "int (length (V s1)) \<le> nbTimeToKeep s1" "length (V s1) \<le> timeIter s1 - 1"
    and b: "kind s1 = IQN_ILS" "nbTimeToKeep s1 = N" "timeIter s1 = timeIter s"
    by (simp_all add: hist_inv_def)
  from IQN_updateHistory_bound [OF a, of "nbFSIIter_of s" l1] b
  show ?thesis by (simp add: e)
qed

lemma hist_inv_timeStep:
  assumes inv: "hist_inv N s" and pos: "0 < N" and ret: "timeStep c s = Returned s'"
  shows "hist_inv N s'"
proof -
  from ret obtain s1 s4 where
    f: "fsiCoupling c s = Returned s1" and
    p: "(let s2 = (if timeIter s1 > 0 then s1\<lparr>totNbOfFSIIt := totNbOfFSIIt s1 + FSIIter s1\<rparr> else s1);
             s3 = writeRealTimeData (emit [TimeStepUpdate (timeIter s2)] s2)
         in (if int (timeIter s3) \<ge> timeIterTreshold s3 then solidDisplacementPredictor c s3
             else Returned s3)) = Returned s4" and
    e: "s' = s4\<lparr>timeIter := timeIter s4 + 1, time := time s4 + deltaT s4\<rparr>"
    unfolding timeStep_def by (auto simp: Let_def dest!: and_then_Returned)
  have "hist s4 = hist s1"
    using p by (auto simp: Let_def dest: hist_solidDisplacementPredictor split: if_splits)
  then have h: "kind s4 = kind s1" "nbTimeToKeep s4 = nbTimeToKeep s1" "V s4 = V s1"
    "W s4 = W s1" "timeIter s4 = timeIter s1"
    by (simp_all add: hist_def)
  from hist_inv_fsiCoupling [OF inv pos f] h
  show ?thesis by (simp add: hist_inv_def e)
qed

lemma hist_inv_timeSteps:
  "hist_inv N s \<Longrightarrow> 0 < N \<Longrightarrow> timeSteps c n s = Returned sn \<Longrightarrow> hist_inv N sn"
proof (induction n arbitrary: sn)
  case 0
  then show ?case by simp
next
  case (Suc n)
  from Suc.prems(3) obtain sm where m: "timeSteps c n s = Returned sm"
    and st: "timeStep c sm = Returned sn"
    by (auto dest: and_then_Returned)
  from Suc.IH [OF Suc.prems(1,2) m] have "hist_inv N sm" .
  then show ?case using Suc.prems(2) st by (rule hist_inv_timeStep)
qed

lemma hist_inv_init:
  "0 < nbKeep \<Longrightarrow>
   hist_inv nbKeep
     (AlgorithmIQN_ILS_init Manager ip nbIterMax dt tTot treshold omMax nbKeep firstIt mpiComm)"
  by (simp add: hist_inv_def AlgorithmIQN_ILS_init_def AlgorithmBGSAitkenRelax_init_def
      AlgorithmBGSStaticRelax_init_def Algorithm_init_def)

text \<open>
  C2: an IQN-ILS algorithm is built with \<open>nbTimeToKeep > 0\<close> and makes any number of time
  steps of an unsteady run. After every further call of \<open>fsiCoupling\<close> that returns, \<open>V\<close>
  and \<open>W\<close> have the same length, and it is at most \<open>nbTimeToKeep\<close>.
\<close>

theorem IQN_history_lengths:
  assumes "0 < nbKeep"
      and "timeSteps c n
             (AlgorithmIQN_ILS_init Manager ip nbIterMax dt tTot treshold omMax nbKeep firstIt mpiComm)
           = Returned sn"
      and "fsiCoupling c sn = Returned s'"
  shows "length (V s') = length (W s') \<and> int (length (V s')) \<le> nbKeep"
proof -
  from hist_inv_timeSteps [OF hist_inv_init [OF assms(1)] assms(1) assms(2)]
  have "hist_inv nbKeep sn" .
  from hist_inv_fsiCoupling [OF this assms(1) assms(3)] show ?thesis by simp
qed

text \<open>
  The single call of a steady run, which sets \<open>timeIter\<close> to 1 before it, keeps the bound
  as well.
\<close>

lemma IQN_history_lengths_steady:
  assumes "0 < nbKeep"
      and "fsiCoupling c
             ((AlgorithmIQN_ILS_init Manager ip nbIterMax dt tTot treshold omMax nbKeep firstIt mpiComm)
                \<lparr>time := tTot, timeIter := 1, deltaT := tTot, writeInFSIloop := True\<rparr>) = Returned s'"
  shows "length (V s') = length (W s') \<and> int (length (V s')) \<le> nbKeep"
proof -
  have "hist_inv nbKeep
     ((AlgorithmIQN_ILS_init Manager ip nbIterMax dt tTot treshold omMax nbKeep firstIt mpiComm)
                \<lparr>time := tTot, timeIter := 1, deltaT := tTot, writeInFSIloop := True\<rparr>)"
    using assms(1)
    by (simp add: hist_inv_def AlgorithmIQN_ILS_init_def AlgorithmBGSAitkenRelax_init_def
        AlgorithmBGSStaticRelax_init_def Algorithm_init_def)
  from hist_inv_fsiCoupling [OF this assms(1) assms(2)] show ?thesis by simp
qed

text \<open>
  A run for the witness: with the criterion of \<open>c0\<close>, verified on the error value 1 a
  call starts with, every call skips the loop and, from \<open>timeIter = 1\<close> on, stores an
  empty matrix in \<open>V\<close> and in \<open>W\<close>.
\<close>

lemma IQN_fsiCoupling_skip:
  assumes "isVerified c 1 (10 ^ 6)"
  shows "IQN_fsiCoupling c s =
     Returned (IQN_exit (IQN_updateHistory (nbFSIIter_of s) (IQN_enter s) (IQN_locals_init s)))"
proof -
  have "IQN_loop c (nbFSIIter_of s) (IQN_enter s, IQN_locals_init s)
      = Returned (IQN_enter s, IQN_locals_init s)"
    using assms by (subst IQN_loop.simps) (simp add: IQN_enter_def emit_def)
  then show ?thesis by (simp add: IQN_fsiCoupling_def)
qed

definition skip_inv :: "nat \<Rightarrow> nat \<Rightarrow> algorithm \<Rightarrow> bool" where
  "skip_inv t k s \<longleftrightarrow>
     kind s = IQN_ILS \<and> manager s = manager_fsi \<and> myid s = 0 \<and> timeIter s = t \<and>
     timeIterTreshold s = - 1 \<and> nbFSIIterMax s = 5 \<and> nbTimeToKeep s = 2 \<and>
     length (V s) = k \<and> length (W s) = k \<and>
     solidInterfaceDisplacement (interfaceInterpolator s) = Some [[0, 0], [0, 0], [0, 0]]"

definition skip_next :: "nat \<Rightarrow> nat \<Rightarrow> nat" where
  "skip_next t k = (if t = 0 then k else if 2 < t \<and> 2 < k + 1 then k else k + 1)"

lemma skip_inv_fsiCoupling:
  assumes "skip_inv t k s"
  shows "\<exists>s'. fsiCoupling c0 s = Returned s' \<and> skip_inv t (skip_next t k) s'"
proof -
  have v: "isVerified c0 1 (10 ^ 6)" by (simp add: c0_def)
  have "fsiCoupling c0 s = IQN_fsiCoupling c0 s"
    using assms by (simp add: fsiCoupling_def skip_inv_def)
  moreover have "skip_inv t (skip_next t k)
      (IQN_exit (IQN_updateHistory (nbFSIIter_of s) (IQN_enter s) (IQN_locals_init s)))"
    using assms
    by (auto simp: skip_inv_def skip_next_def IQN_exit_def IQN_updateHistory_def IQN_enter_def
        nbFSIIter_of_def emit_def Let_def)
  ultimately show ?thesis using IQN_fsiCoupling_skip [OF v, of s] by simp
qed

lemma skip_inv_upd_simps [simp]:
  "skip_inv t k (s\<lparr>totNbOfFSIIt := n\<rparr>) = skip_inv t k s"
  "skip_inv t k (s\<lparr>trace := evs\<rparr>) = skip_inv t k s"
  "skip_inv t k (s\<lparr>time := x\<rparr>) = skip_inv t k s"
  by (simp_all add: skip_inv_def)

lemma skip_inv_solidDisplacementPredictor:
  assumes "skip_inv t k s"
  shows "\<exists>s'. solidDisplacementPredictor c0 s = Returned s' \<and> skip_inv t k s'"
  using assms
  by (simp add: solidDisplacementPredictor_def Let_def skip_inv_def emit_def c0_def
      field_iadd_def field_add_def field_scale_def field_sub_def)

lemma skip_inv_timeStep:
  assumes "skip_inv t k s"
  shows "\<exists>s'. timeStep c0 s = Returned s' \<and> skip_inv (Suc t) (skip_next t k) s'"
proof -
  from skip_inv_fsiCoupling [OF assms] obtain s1 where
    f: "fsiCoupling c0 s = Returned s1" and i: "skip_inv t (skip_next t k) s1"
    by blast
  define s2 where "s2 = (if timeIter s1 > 0 then s1\<lparr>totNbOfFSIIt := totNbOfFSIIt s1 + FSIIter s1\<rparr> else s1)"
  define s3 where "s3 = writeRealTimeData (emit [TimeStepUpdate (timeIter s2)] s2)"
  have i3: "skip_inv t (skip_next t k) s3"
    using i by (simp add: s3_def s2_def writeRealTimeData_def emit_def)
  then have th: "int (timeIter s3) \<ge> timeIterTreshold s3" by (simp add: skip_inv_def)
  from skip_inv_solidDisplacementPredictor [OF i3] obtain s4 where
    p: "solidDisplacementPredictor c0 s3 = Returned s4" and i4: "skip_inv t (skip_next t k) s4"
    by blast
  have "timeStep c0 s = Returned (s4\<lparr>timeIter := timeIter s4 + 1, time := time s4 + deltaT s4\<rparr>)"
    unfolding timeStep_def f
    using th p by (simp add: and_then_def Let_def s3_def [symmetric] s2_def [symmetric])
  moreover have "skip_inv (Suc t) (skip_next t k)
      (s4\<lparr>timeIter := timeIter s4 + 1, time := time s4 + deltaT s4\<rparr>)"
    using i4 by (simp add: skip_inv_def)
  ultimately show ?thesis by simp
qed

lemma skip_inv_init: "skip_inv 0 0 (iqn0 5 (- 1))"
  by (simp add: skip_inv_def iqn0_simps ip_fsi_simps)

theorem IQN_history_lengths_witness:
  "(0::int) < 2
   \<and> (\<exists>sn s'. timeSteps c0 3
                (AlgorithmIQN_ILS_init manager_fsi ip_fsi 5 1 10 (- 1) (1 / 2) 2 False None)
              = Returned sn
          \<and> fsiCoupling c0 sn = Returned s'
          \<and> length (V s') = length (W s') \<and> int (length (V s')) \<le> 2 \<and> length (V s') = 2)"
proof -
  have pos: "(0::int) < 2" by simp
  from skip_inv_timeStep [OF skip_inv_init] obtain s1 where
    t1: "timeStep c0 (iqn0 5 (- 1)) = Returned s1" and i1: "skip_inv 1 0 s1"
    by (auto simp: skip_next_def)
  from skip_inv_timeStep [OF i1] obtain s2 where
    t2: "timeStep c0 s1 = Returned s2" and i2: "skip_inv 2 1 s2"
    by (auto simp: skip_next_def numeral_2_eq_2)
  from skip_inv_timeStep [OF i2] obtain s3 where
    t3: "timeStep c0 s2 = Returned s3" and i3: "skip_inv 3 2 s3"
    by (auto simp: skip_next_def numeral_3_eq_3 numeral_2_eq_2)
  from skip_inv_fsiCoupling [OF i3] obtain s' where
    f: "fsiCoupling c0 s3 = Returned s'" and i4: "skip_inv 3 2 s'"
    by (auto simp: skip_next_def)
  have steps: "timeSteps c0 3
      (AlgorithmIQN_ILS_init manager_fsi ip_fsi 5 1 10 (- 1) (1 / 2) 2 False None) = Returned s3"
    using t1 t2 t3 by (simp add: numeral_3_eq_3 and_then_def iqn0_def)
  from IQN_history_lengths [OF pos steps f] i4 steps f pos
  show ?thesis by (auto simp: skip_inv_def)
qed

end
